theory Spec2Isabelle
  imports Complex_Main "HOL-Library.AList"
begin

section \<open>JavaScript numbers\<close>

text \<open>
  A JavaScript number is a finite value, one of the two infinities, or NaN. The finite
  values are taken as reals: the code below only compares numbers and takes minima and
  maxima, so rounding plays no part.
\<close>

datatype jsnum = NaN | NInf | Fin real | PInf

text \<open>The comparison \<^verbatim>\<open>a < b\<close>: false as soon as one side is NaN.\<close>

fun js_lt :: "jsnum \<Rightarrow> jsnum \<Rightarrow> bool" where
  "js_lt NaN b = False"
| "js_lt a NaN = False"
| "js_lt PInf b = False"
| "js_lt a NInf = False"
| "js_lt NInf b = True"
| "js_lt a PInf = True"
| "js_lt (Fin a) (Fin b) = (a < b)"

definition js_gt :: "jsnum \<Rightarrow> jsnum \<Rightarrow> bool" where
  "js_gt a b = js_lt b a"

definition isNaN :: "jsnum \<Rightarrow> bool" where
  "isNaN x = (x = NaN)"

text \<open>\<^verbatim>\<open>Math.min\<close> and \<^verbatim>\<open>Math.max\<close> of two arguments: NaN if either is NaN.\<close>

definition Math_min :: "jsnum \<Rightarrow> jsnum \<Rightarrow> jsnum" where
  "Math_min a b = (if a = NaN \<or> b = NaN then NaN else if js_lt b a then b else a)"

definition Math_max :: "jsnum \<Rightarrow> jsnum \<Rightarrow> jsnum" where
  "Math_max a b = (if a = NaN \<or> b = NaN then NaN else if js_lt a b then b else a)"

section \<open>The player hook (useAudioPlayer.js)\<close>

text \<open>
  The hook keeps nine React state cells and a ref to one audio element. The element is
  modelled by the attributes the hook reads and writes and a log of the methods it
  calls on it. A state setter is a field update.
\<close>

datatype js_error =
    SecurityError
  | QuotaExceededError
  | SyntaxError
  | TypeError
  | FileReadError
  | InvalidAudioError
  | StorageUnavailable
  | SaveFailed js_error

datatype media_call = Load | Play | Pause

record audio =
  el_src :: string
  el_preload :: string
  el_volume :: jsnum
  el_currentTime :: jsnum
  el_calls :: "media_call list"

record track =
  track_id :: string
  track_url :: "string option"

record player =
  currentTrack :: "track option"
  isPlaying :: bool
  currentTime :: jsnum
  duration :: jsnum
  volume :: jsnum
  isLoading :: bool
  error :: "string option"
  isShuffling :: bool
  repeatMode :: string
  audioRef :: "audio option"

text \<open>The values given to \<^verbatim>\<open>useState\<close> and \<^verbatim>\<open>useRef\<close> on the first render.\<close>

definition initial :: player where
  "initial = \<lparr> currentTrack = None, isPlaying = False, currentTime = Fin 0,
      duration = Fin 0, volume = Fin 1, isLoading = False, error = None,
      isShuffling = False, repeatMode = ''none'', audioRef = None \<rparr>"

text \<open>\<^verbatim>\<open>new Audio()\<close> with \<^verbatim>\<open>preload = 'metadata'\<close>, as the mount effect creates it.\<close>

definition new_Audio :: audio where
  "new_Audio = \<lparr> el_src = '''', el_preload = ''auto'', el_volume = Fin 1,
      el_currentTime = Fin 0, el_calls = [] \<rparr>"

definition mount :: "player \<Rightarrow> player" where
  "mount s = s\<lparr>audioRef := Some (new_Audio\<lparr>el_preload := ''metadata''\<rparr>)\<rparr>"

text \<open>
  \<^verbatim>\<open>handleTrackEnd\<close> is a \<^verbatim>\<open>useCallback\<close> over \<^verbatim>\<open>[repeatMode]\<close>: each render builds
  a callback that holds the repeat mode of that render. The first argument is that
  captured value. The element is dereferenced without a guard.
\<close>

definition handleTrackEnd :: "string \<Rightarrow> player \<Rightarrow> js_error + player" where
  "handleTrackEnd captured s =
     (if captured = ''one'' then
        (case audioRef s of
           None \<Rightarrow> Inl TypeError
         | Some a \<Rightarrow>
             Inr (s\<lparr>audioRef := Some (a\<lparr>el_currentTime := Fin 0,
                                          el_calls := el_calls a @ [Play]\<rparr>),
                    isPlaying := True\<rparr>))
      else Inr (s\<lparr>currentTime := Fin 0\<rparr>))"

text \<open>
  The \<^verbatim>\<open>ended\<close> listener is defined and attached inside the mount effect, whose
  dependency list is empty: the effect runs once, after the first render, and the
  \<^verbatim>\<open>handleTrackEnd\<close> it calls is the callback of that first render, which holds the
  repeat mode of the initial state.
\<close>

definition handleEnded :: "player \<Rightarrow> js_error + player" where
  "handleEnded s = handleTrackEnd (repeatMode initial) (s\<lparr>isPlaying := False\<rparr>)"

definition loadTrack :: "track option \<Rightarrow> player \<Rightarrow> player" where
  "loadTrack t s =
     (let invalid = s\<lparr>error := Some ''Invalid track data''\<rparr> in
      case t of
        None \<Rightarrow> invalid
      | Some tr \<Rightarrow>
          (case track_url tr of
             None \<Rightarrow> invalid
           | Some u \<Rightarrow>
               if u = [] then invalid
               else
                 let s1 = s\<lparr>currentTrack := t, isLoading := True, error := None,
                            currentTime := Fin 0\<rparr>
                 in (case audioRef s1 of
                       None \<Rightarrow> s1
                     | Some a \<Rightarrow>
                         s1\<lparr>audioRef := Some (a\<lparr>el_src := u, el_volume := volume s,
                                                   el_calls := el_calls a @ [Load]\<rparr>)\<rparr>)))"

text \<open>
  The assignment \<^verbatim>\<open>audio.currentTime = x\<close>: the element takes a finite value and throws
  a TypeError on NaN and on the infinities.
\<close>

definition set_currentTime :: "jsnum \<Rightarrow> audio \<Rightarrow> js_error + audio" where
  "set_currentTime x a =
     (case x of
        Fin r \<Rightarrow> Inr (a\<lparr>el_currentTime := Fin r\<rparr>)
      | _ \<Rightarrow> Inl TypeError)"

text \<open>
  \<^verbatim>\<open>seekTo\<close> assigns to the element first: when the assignment throws,
  \<^verbatim>\<open>setCurrentTime\<close> is not reached and nothing has changed.
\<close>

definition seekTo :: "jsnum \<Rightarrow> player \<Rightarrow> js_error + player" where
  "seekTo time s =
     (case audioRef s of
        None \<Rightarrow> Inr s
      | Some a \<Rightarrow>
          if \<not> isNaN time then
            let seekTime = Math_max (Fin 0) (Math_min time (duration s))
            in (case set_currentTime seekTime a of
                  Inl e \<Rightarrow> Inl e
                | Inr a' \<Rightarrow> Inr (s\<lparr>audioRef := Some a', currentTime := seekTime\<rparr>))
          else Inr s)"

definition changeVolume :: "jsnum \<Rightarrow> player \<Rightarrow> player" where
  "changeVolume newVolume s =
     (let vol = Math_max (Fin 0) (Math_min (Fin 1) newVolume);
          s1 = s\<lparr>volume := vol\<rparr>
      in (case audioRef s1 of
            None \<Rightarrow> s1
          | Some a \<Rightarrow> s1\<lparr>audioRef := Some (a\<lparr>el_volume := vol\<rparr>)\<rparr>))"

definition toggleMute :: "player \<Rightarrow> player" where
  "toggleMute s =
     (case audioRef s of
        None \<Rightarrow> s
      | Some a \<Rightarrow>
          if js_gt (el_volume a) (Fin 0)
          then s\<lparr>audioRef := Some (a\<lparr>el_volume := Fin 0\<rparr>), volume := Fin 0\<rparr>
          else s\<lparr>audioRef := Some (a\<lparr>el_volume := Fin 1\<rparr>), volume := Fin 1\<rparr>)"

definition toggleShuffle :: "player \<Rightarrow> player" where
  "toggleShuffle s = s\<lparr>isShuffling := \<not> isShuffling s\<rparr>"

text \<open>The updater given to \<^verbatim>\<open>setRepeatMode\<close>: a \<^verbatim>\<open>switch\<close> on the previous mode.\<close>

definition nextRepeatMode :: "string \<Rightarrow> string" where
  "nextRepeatMode prev =
     (if prev = ''none'' then ''all''
      else if prev = ''all'' then ''one''
      else if prev = ''one'' then ''none''
      else ''none'')"

definition toggleRepeat :: "player \<Rightarrow> player" where
  "toggleRepeat s = s\<lparr>repeatMode := nextRepeatMode (repeatMode s)\<rparr>"

text \<open>The operations that the volume invariant ranges over.\<close>

datatype player_op = ChangeVolume real | ToggleMute | LoadTrack "track option"

fun apply_op :: "player \<Rightarrow> player_op \<Rightarrow> player" where
  "apply_op s (ChangeVolume v) = changeVolume (Fin v) s"
| "apply_op s ToggleMute = toggleMute s"
| "apply_op s (LoadTrack t) = loadTrack t s"

section \<open>The gain node of the audio context manager (audioContext.js)\<close>

text \<open>
  \<^verbatim>\<open>setValueAtTime(value, startTime)\<close> schedules a value on the gain parameter; the
  node is modelled by the list of scheduled values.
\<close>

record manager =
  audioContext_time :: "jsnum option"
  gainNode :: "(jsnum \<times> jsnum) list option"

definition setVolume :: "jsnum \<Rightarrow> manager \<Rightarrow> js_error + manager" where
  "setVolume vol m =
     (case gainNode m of
        None \<Rightarrow> Inr m
      | Some g \<Rightarrow>
          let clampedVolume = Math_max (Fin 0) (Math_min (Fin 1) vol)
          in (case audioContext_time m of
                None \<Rightarrow> Inl TypeError
              | Some now \<Rightarrow> Inr (m\<lparr>gainNode := Some (g @ [(clampedVolume, now)])\<rparr>)))"

section \<open>Values and the browser\<close>

text \<open>
  The values that travel through \<^verbatim>\<open>JSON.parse\<close> and \<^verbatim>\<open>JSON.stringify\<close>. An object is
  the list of its properties.
\<close>

datatype jsval =
    Undefined
  | Null
  | Bool bool
  | Num jsnum
  | Str string
  | Arr "jsval list"
  | Obj "(string \<times> jsval) list"

definition truthy :: "jsval \<Rightarrow> bool" where
  "truthy v =
     (case v of
        Undefined \<Rightarrow> False
      | Null \<Rightarrow> False
      | Bool b \<Rightarrow> b
      | Num n \<Rightarrow> n \<noteq> NaN \<and> n \<noteq> Fin 0
      | Str s \<Rightarrow> s \<noteq> []
      | Arr xs \<Rightarrow> True
      | Obj ps \<Rightarrow> True)"

text \<open>
  The property read \<^verbatim>\<open>file.id\<close>: a TypeError on null and undefined, the property of
  an object, undefined on every other value.
\<close>

definition prop_id :: "jsval \<Rightarrow> js_error + jsval" where
  "prop_id v =
     (case v of
        Undefined \<Rightarrow> Inl TypeError
      | Null \<Rightarrow> Inl TypeError
      | Obj ps \<Rightarrow> Inr (case map_of ps ''id'' of None \<Rightarrow> Undefined | Some x \<Rightarrow> x)
      | _ \<Rightarrow> Inr Undefined)"

text \<open>A browser \<^verbatim>\<open>File\<close>, and the plain object that the uploader builds from one.\<close>

record jsfile =
  file_name :: string
  file_type :: string
  file_size :: nat
  file_lastModified :: nat

record audioFile =
  af_id :: string
  af_name :: string
  af_file :: string
  af_duration :: jsnum
  af_size :: nat
  af_type :: string
  af_data :: string
  af_uploadedAt :: string

text \<open>What \<^verbatim>\<open>saveAudioFile\<close> is called with: a File, or the uploader's plain object.\<close>

datatype upload = Blob jsfile | Plain audioFile

fun upload_name :: "upload \<Rightarrow> string" where
  "upload_name (Blob f) = file_name f"
| "upload_name (Plain a) = af_name a"

fun upload_size :: "upload \<Rightarrow> nat" where
  "upload_size (Blob f) = file_size f"
| "upload_size (Plain a) = af_size a"

fun upload_type :: "upload \<Rightarrow> string" where
  "upload_type (Blob f) = file_type f"
| "upload_type (Plain a) = af_type a"

fun upload_lastModified :: "upload \<Rightarrow> jsval" where
  "upload_lastModified (Blob f) = Num (Fin (real (file_lastModified f)))"
| "upload_lastModified (Plain a) = Undefined"

datatype media_event = Loadedmetadata jsnum | ErrorEvent

text \<open>
  The built-ins of the browser that the code calls and whose results it does not
  determine. Every function of the storage service and of the uploader takes them as
  its first argument.
  \<^item> \<open>json_parse\<close>: \<^verbatim>\<open>JSON.parse\<close>, \<open>None\<close> when it throws a SyntaxError;
  \<^item> \<open>readAsDataURL\<close>: the result a FileReader delivers to \<^verbatim>\<open>onload\<close>, \<open>None\<close> when the
    read fails (\<^verbatim>\<open>onerror\<close>, or the call throws);
  \<^item> \<open>createObjectURL\<close>: \<open>None\<close> when \<^verbatim>\<open>URL.createObjectURL\<close> throws;
  \<^item> \<open>loadMetadata\<close>: which of \<^verbatim>\<open>loadedmetadata\<close> (with the duration) and \<^verbatim>\<open>error\<close> an
    audio element fires once its \<^verbatim>\<open>src\<close> is the given URL;
  \<^item> the clock and the random source, as the strings the code makes of them.
\<close>

record browser =
  json_parse :: "string \<Rightarrow> jsval option"
  json_stringify :: "jsval \<Rightarrow> string"
  readAsDataURL :: "upload \<Rightarrow> string option"
  createObjectURL :: "upload \<Rightarrow> string option"
  loadMetadata :: "string \<Rightarrow> media_event"
  date_now_base36 :: string
  math_random_base36 :: string
  date_now_string :: string
  date_iso_string :: string

section \<open>localStorage\<close>

text \<open>
  The store is the list of its key/value pairs; a string is the list of its code units.
  Every access throws while the store is not accessible, and \<^verbatim>\<open>setItem\<close> throws when
  the browser's quota does not admit the contents that the write would give.
  \<open>inherited\<close> holds of the names that the prototypes of the store define
  (\<^verbatim>\<open>length\<close>, \<^verbatim>\<open>getItem\<close>, \<^verbatim>\<open>toString\<close>, ...): an entry stored under such a key is
  read and written by \<^verbatim>\<open>getItem\<close> and \<^verbatim>\<open>setItem\<close> like any other, but it is not an
  own property of the store.
\<close>

record localStorage =
  accessible :: bool
  accepts :: "(string \<times> string) list \<Rightarrow> bool"
  inherited :: "string \<Rightarrow> bool"
  items :: "(string \<times> string) list"

text \<open>\<^verbatim>\<open>localStorage.hasOwnProperty(key)\<close>.\<close>

definition hasOwnProperty :: "localStorage \<Rightarrow> string \<Rightarrow> bool" where
  "hasOwnProperty ls key = (map_of (items ls) key \<noteq> None \<and> \<not> inherited ls key)"

definition setItem :: "localStorage \<Rightarrow> string \<Rightarrow> string \<Rightarrow> js_error + localStorage" where
  "setItem ls k v =
     (if \<not> accessible ls then Inl SecurityError
      else
        let items' = AList.update k v (items ls)
        in if accepts ls items' then Inr (ls\<lparr>items := items'\<rparr>) else Inl QuotaExceededError)"

definition removeItem :: "localStorage \<Rightarrow> string \<Rightarrow> js_error + localStorage" where
  "removeItem ls k =
     (if \<not> accessible ls then Inl SecurityError
      else Inr (ls\<lparr>items := AList.delete k (items ls)\<rparr>))"

definition getItem :: "localStorage \<Rightarrow> string \<Rightarrow> js_error + string option" where
  "getItem ls k = (if \<not> accessible ls then Inl SecurityError else Inr (map_of (items ls) k))"

section \<open>The storage service\<close>

definition AUDIO_FILES :: string where
  "AUDIO_FILES = ''player_audio_files''"

definition PLAYBACK_STATE :: string where
  "PLAYBACK_STATE = ''player_playback_state''"

definition CURRENT_PLAYLIST :: string where
  "CURRENT_PLAYLIST = ''player_current_playlist''"

definition USER_PREFERENCES :: string where
  "USER_PREFERENCES = ''player_user_preferences''"

definition storage_test :: string where
  "storage_test = ''__storage_test__''"

definition fileToBase64 :: "browser \<Rightarrow> upload \<Rightarrow> js_error + string" where
  "fileToBase64 env f =
     (case readAsDataURL env f of None \<Rightarrow> Inl FileReadError | Some result \<Rightarrow> Inr result)"

definition generateId :: "browser \<Rightarrow> string" where
  "generateId env = date_now_base36 env @ drop 2 (math_random_base36 env)"

text \<open>
  \<^verbatim>\<open>name.replace(/\.[^/.]+$/, "")\<close>: the name loses its last dot and what follows it,
  when what follows is not empty and holds no slash.
\<close>

definition strip_extension :: "string \<Rightarrow> string" where
  "strip_extension s =
     (let r = rev s;
          plain = (\<lambda>c. c \<noteq> CHR ''.'' \<and> c \<noteq> CHR ''/'')
      in (case dropWhile plain r of
            [] \<Rightarrow> s
          | c # stem \<Rightarrow> if c = CHR ''.'' \<and> takeWhile plain r \<noteq> [] then rev stem else s))"

definition extractMetadata :: "browser \<Rightarrow> upload \<Rightarrow> js_error + jsval" where
  "extractMetadata env f =
     (case createObjectURL env f of
        None \<Rightarrow> Inl TypeError
      | Some url \<Rightarrow>
          Inr (Obj [(''duration'',
                      Num (case loadMetadata env url of
                             Loadedmetadata d \<Rightarrow> d
                           | ErrorEvent \<Rightarrow> Fin 0)),
                    (''name'', Str (strip_extension (upload_name f))),
                    (''fileName'', Str (upload_name f)),
                    (''size'', Num (Fin (real (upload_size f)))),
                    (''type'', Str (upload_type f)),
                    (''lastModified'', upload_lastModified f)]))"

definition checkStorageAvailability :: "localStorage \<Rightarrow> bool \<times> localStorage" where
  "checkStorageAvailability ls =
     (case setItem ls storage_test storage_test of
        Inl e \<Rightarrow> (False, ls)
      | Inr ls1 \<Rightarrow>
          (case removeItem ls1 storage_test of
             Inl e \<Rightarrow> (False, ls1)
           | Inr ls2 \<Rightarrow> (True, ls2)))"

text \<open>
  The object that \<^verbatim>\<open>getStorageInfo\<close> returns, without its two display strings
  \<^verbatim>\<open>usedMB\<close> and \<^verbatim>\<open>availableMB\<close>. The \<^verbatim>\<open>for\<close>-\<^verbatim>\<open>in\<close> loop meets every stored key, and
  adds the length of its value when the key is an own property of the store.
\<close>

record storageInfo =
  used :: int
  available :: int
  total :: int

definition getStorageInfo :: "localStorage \<Rightarrow> storageInfo \<times> localStorage" where
  "getStorageInfo ls =
     (case checkStorageAvailability ls of
        (False, ls1) \<Rightarrow> (\<lparr> used = 0, available = 0, total = 0 \<rparr>, ls1)
      | (True, ls1) \<Rightarrow>
          let u = foldl (\<lambda>acc (key, val).
                           if hasOwnProperty ls1 key then acc + int (length val) else acc)
                    0 (items ls1);
              t = 10 * 1024 * 1024;
              a = t - u
          in (\<lparr> used = u, available = a, total = t \<rparr>, ls1))"

text \<open>The body of the \<^verbatim>\<open>try\<close> of \<^verbatim>\<open>getAudioFiles\<close>, and the function with its \<^verbatim>\<open>catch\<close>.\<close>

definition read_json :: "browser \<Rightarrow> localStorage \<Rightarrow> string \<Rightarrow> jsval \<Rightarrow> js_error + jsval" where
  "read_json env ls key dflt =
     (case getItem ls key of
        Inl e \<Rightarrow> Inl e
      | Inr None \<Rightarrow> Inr dflt
      | Inr (Some stored) \<Rightarrow>
          if stored = [] then Inr dflt
          else (case json_parse env stored of None \<Rightarrow> Inl SyntaxError | Some v \<Rightarrow> Inr v))"

definition getAudioFiles :: "browser \<Rightarrow> localStorage \<Rightarrow> (js_error + jsval) \<times> localStorage" where
  "getAudioFiles env ls =
     (case checkStorageAvailability ls of
        (False, ls1) \<Rightarrow> (Inr (Arr []), ls1)
      | (True, ls1) \<Rightarrow>
          (case read_json env ls1 AUDIO_FILES (Arr []) of
             Inl e \<Rightarrow> (Inr (Arr []), ls1)
           | Inr v \<Rightarrow> (Inr v, ls1)))"

text \<open>
  \<^verbatim>\<open>[...existingFiles, audioFile]\<close>: the elements of an array, the characters of a
  string, a TypeError on a value that is not iterable.
\<close>

definition spread :: "jsval \<Rightarrow> js_error + jsval list" where
  "spread v =
     (case v of
        Arr xs \<Rightarrow> Inr xs
      | Str s \<Rightarrow> Inr (map (\<lambda>c. Str [c]) s)
      | _ \<Rightarrow> Inl TypeError)"

definition saveAudioFile ::
  "browser \<Rightarrow> localStorage \<Rightarrow> upload \<Rightarrow> (js_error + jsval) \<times> localStorage" where
  "saveAudioFile env ls f =
     (case checkStorageAvailability ls of
        (False, ls1) \<Rightarrow> (Inl StorageUnavailable, ls1)
      | (True, ls1) \<Rightarrow>
          (case fileToBase64 env f of
             Inl e \<Rightarrow> (Inl (SaveFailed e), ls1)
           | Inr base64Data \<Rightarrow>
               (case extractMetadata env f of
                  Inl e \<Rightarrow> (Inl (SaveFailed e), ls1)
                | Inr metadata \<Rightarrow>
                    let audioFile = Obj [(''id'', Str (generateId env)),
                                         (''data'', Str base64Data),
                                         (''metadata'', metadata),
                                         (''createdAt'', Str (date_iso_string env)),
                                         (''playCount'', Num (Fin 0)),
                                         (''lastPlayed'', Null)]
                    in (case getAudioFiles env ls1 of
                          (Inl e, ls2) \<Rightarrow> (Inl (SaveFailed e), ls2)
                        | (Inr existingFiles, ls2) \<Rightarrow>
                            (case spread existingFiles of
                               Inl e \<Rightarrow> (Inl (SaveFailed e), ls2)
                             | Inr xs \<Rightarrow>
                                 (case setItem ls2 AUDIO_FILES
                                         (json_stringify env (Arr (xs @ [audioFile]))) of
                                    Inl e \<Rightarrow> (Inl (SaveFailed e), ls2)
                                  | Inr ls3 \<Rightarrow> (Inr audioFile, ls3)))))))"

text \<open>\<^verbatim>\<open>files.find(file => file.id === id)\<close> on the elements of an array.\<close>

fun find_id :: "jsval list \<Rightarrow> string \<Rightarrow> js_error + jsval" where
  "find_id [] i = Inr Undefined"
| "find_id (x # xs) i =
     (case prop_id x of
        Inl e \<Rightarrow> Inl e
      | Inr v \<Rightarrow> if v = Str i then Inr x else find_id xs i)"

definition getAudioFile ::
  "browser \<Rightarrow> localStorage \<Rightarrow> string \<Rightarrow> (js_error + jsval) \<times> localStorage" where
  "getAudioFile env ls i =
     (case getAudioFiles env ls of
        (Inl e, ls1) \<Rightarrow> (Inl e, ls1)
      | (Inr (Arr xs), ls1) \<Rightarrow>
          (case find_id xs i of
             Inl e \<Rightarrow> (Inl e, ls1)
           | Inr found \<Rightarrow> (Inr (if truthy found then found else Null), ls1))
      | (Inr other, ls1) \<Rightarrow> (Inl TypeError, ls1))"

text \<open>\<^verbatim>\<open>files.filter(file => file.id !== id)\<close> on the elements of an array.\<close>

fun filter_id :: "jsval list \<Rightarrow> string \<Rightarrow> js_error + jsval list" where
  "filter_id [] i = Inr []"
| "filter_id (x # xs) i =
     (case prop_id x of
        Inl e \<Rightarrow> Inl e
      | Inr v \<Rightarrow>
          (case filter_id xs i of
             Inl e \<Rightarrow> Inl e
           | Inr ys \<Rightarrow> Inr (if v \<noteq> Str i then x # ys else ys)))"

definition deleteAudioFile ::
  "browser \<Rightarrow> localStorage \<Rightarrow> string \<Rightarrow> (js_error + bool) \<times> localStorage" where
  "deleteAudioFile env ls i =
     (case getAudioFiles env ls of
        (Inl e, ls1) \<Rightarrow> (Inr False, ls1)
      | (Inr (Arr xs), ls1) \<Rightarrow>
          (case filter_id xs i of
             Inl e \<Rightarrow> (Inr False, ls1)
           | Inr updatedFiles \<Rightarrow>
               (case setItem ls1 AUDIO_FILES (json_stringify env (Arr updatedFiles)) of
                  Inl e \<Rightarrow> (Inr False, ls1)
                | Inr ls2 \<Rightarrow> (Inr True, ls2)))
      | (Inr other, ls1) \<Rightarrow> (Inr False, ls1))"

definition getPlaylistState :: "browser \<Rightarrow> localStorage \<Rightarrow> js_error + jsval" where
  "getPlaylistState env ls =
     (case read_json env ls CURRENT_PLAYLIST (Arr []) of
        Inl e \<Rightarrow> Inr (Arr [])
      | Inr v \<Rightarrow> Inr v)"

definition getPlaybackState :: "browser \<Rightarrow> localStorage \<Rightarrow> js_error + jsval" where
  "getPlaybackState env ls =
     (case read_json env ls PLAYBACK_STATE Null of
        Inl e \<Rightarrow> Inr Null
      | Inr v \<Rightarrow> Inr v)"

definition default_preferences :: jsval where
  "default_preferences =
     Obj [(''volume'', Num (Fin 1)), (''shuffle'', Bool False),
          (''repeat'', Str ''none''), (''theme'', Str ''dark'')]"

definition getUserPreferences :: "browser \<Rightarrow> localStorage \<Rightarrow> js_error + jsval" where
  "getUserPreferences env ls =
     (case read_json env ls USER_PREFERENCES default_preferences of
        Inl e \<Rightarrow> Inr default_preferences
      | Inr v \<Rightarrow> Inr v)"

text \<open>
  The test \<^verbatim>\<open>name.match(/\.(mp3|wav|ogg|aac|m4a)$/i)\<close>: the name, with its ASCII letters
  in lower case, ends with a dot and one of the extensions.
\<close>

definition lower :: "char \<Rightarrow> char" where
  "lower c =
     (case map_of (zip ''ABCDEFGHIJKLMNOPQRSTUVWXYZ'' ''abcdefghijklmnopqrstuvwxyz'') c of
        None \<Rightarrow> c
      | Some l \<Rightarrow> l)"

definition ends_with :: "string \<Rightarrow> string \<Rightarrow> bool" where
  "ends_with s suffix =
     (length suffix \<le> length s \<and> drop (length s - length suffix) s = suffix)"

definition has_extension :: "string list \<Rightarrow> string \<Rightarrow> bool" where
  "has_extension exts name = list_ex (\<lambda>e. ends_with (map lower name) (CHR ''.'' # e)) exts"

datatype validation = Valid | Invalid string

definition validTypes :: "string list" where
  "validTypes = [''audio/mpeg'', ''audio/mp3'', ''audio/wav'', ''audio/ogg'', ''audio/aac'',
                 ''audio/m4a'']"

definition maxSize :: nat where
  "maxSize = 50 * 1024 * 1024"

definition validateAudioFile :: "localStorage \<Rightarrow> jsfile \<Rightarrow> validation \<times> localStorage" where
  "validateAudioFile ls f =
     (if file_type f \<notin> set validTypes
         \<and> \<not> has_extension [''mp3'', ''wav'', ''ogg'', ''aac'', ''m4a''] (file_name f)
      then (Invalid ''Invalid audio file type'', ls)
      else if file_size f > maxSize
      then (Invalid ''File size too large (max 50MB)'', ls)
      else
        (case getStorageInfo ls of
           (storageInfo, ls1) \<Rightarrow>
             if int (file_size f) > available storageInfo
             then (Invalid ''Not enough storage space available'', ls1)
             else (Valid, ls1)))"

section \<open>The uploader (AudioUploader.jsx)\<close>

definition supportedFormats :: "string list" where
  "supportedFormats = [''audio/mpeg'', ''audio/mp3'', ''audio/wav'', ''audio/ogg'',
                       ''audio/m4a'']"

definition validateFile :: "jsfile \<Rightarrow> validation" where
  "validateFile f =
     (if file_type f \<notin> set supportedFormats
         \<and> \<not> has_extension [''mp3'', ''wav'', ''ogg'', ''m4a''] (file_name f)
      then Invalid ''Unsupported file format. Please upload MP3, WAV, OGG, or M4A files.''
      else if file_size f > 50 * 1024 * 1024
      then Invalid ''File size too large. Please upload files smaller than 50MB.''
      else Valid)"

definition processAudioFile :: "browser \<Rightarrow> jsfile \<Rightarrow> js_error + audioFile" where
  "processAudioFile env f =
     (case readAsDataURL env (Blob f) of
        None \<Rightarrow> Inl FileReadError
      | Some audioData \<Rightarrow>
          (case loadMetadata env audioData of
             ErrorEvent \<Rightarrow> Inl InvalidAudioError
           | Loadedmetadata d \<Rightarrow>
               Inr \<lparr> af_id = date_now_string env,
                     af_name = strip_extension (file_name f),
                     af_file = file_name f,
                     af_duration = d,
                     af_size = file_size f,
                     af_type = file_type f,
                     af_data = audioData,
                     af_uploadedAt = date_iso_string env \<rparr>))"

text \<open>
  The status shown to the user: the message of a failed validation, the message
  \<^verbatim>\<open>Failed to process NAME: MESSAGE\<close>, or \<^verbatim>\<open>Successfully uploaded N file(s)\<close>.
\<close>

datatype upload_status =
    ValidationFailed string
  | ProcessingFailed string js_error
  | Uploaded nat

record uploader =
  uploading :: bool
  uploadStatus :: "upload_status option"
  uploadProgress :: real

text \<open>
  The \<^verbatim>\<open>for\<close> loop of \<^verbatim>\<open>handleFiles\<close>, from index \<open>i\<close> on. The browser's answers may
  differ from one iteration to the next: \<open>envs i\<close> is the browser during iteration \<open>i\<close>.
  The result holds the list of processed files when the loop runs to its end, and
  \<open>None\<close> when it leaves \<^verbatim>\<open>handleFiles\<close> by \<^verbatim>\<open>return\<close>. The processed object, not the
  File, is what \<^verbatim>\<open>saveAudioFile\<close> is given.
\<close>

fun upload_loop ::
  "(nat \<Rightarrow> browser) \<Rightarrow> nat \<Rightarrow> nat \<Rightarrow> localStorage \<Rightarrow> uploader \<Rightarrow> audioFile list
     \<Rightarrow> jsfile list \<Rightarrow> uploader \<times> localStorage \<times> audioFile list option" where
  "upload_loop envs totalFiles i ls ui processedFiles [] = (ui, ls, Some processedFiles)"
| "upload_loop envs totalFiles i ls ui processedFiles (f # fs) =
     (case validateFile f of
        Invalid msg \<Rightarrow>
          (ui\<lparr>uploadStatus := Some (ValidationFailed msg), uploading := False\<rparr>, ls, None)
      | Valid \<Rightarrow>
          (case processAudioFile (envs i) f of
             Inl e \<Rightarrow>
               (ui\<lparr>uploadStatus := Some (ProcessingFailed (file_name f) e),
                   uploading := False\<rparr>, ls, None)
           | Inr audioFile \<Rightarrow>
               (case saveAudioFile (envs i) ls (Plain audioFile) of
                  (Inl e, ls1) \<Rightarrow>
                    (ui\<lparr>uploadStatus := Some (ProcessingFailed (file_name f) e),
                        uploading := False\<rparr>, ls1, None)
                | (Inr saved, ls1) \<Rightarrow>
                    upload_loop envs totalFiles (i + 1) ls1
                      (ui\<lparr>uploadProgress := (real (i + 1) / real totalFiles) * 100\<rparr>)
                      (processedFiles @ [audioFile]) fs)))"

text \<open>
  \<^verbatim>\<open>handleFiles\<close>: the final state of the component, the store, and the argument given
  to \<^verbatim>\<open>onUploadComplete\<close> when it is called. The \<^verbatim>\<open>finally\<close> block also runs after a
  \<^verbatim>\<open>return\<close> from inside the loop.
\<close>

definition handleFiles ::
  "(nat \<Rightarrow> browser) \<Rightarrow> localStorage \<Rightarrow> uploader \<Rightarrow> jsfile list
     \<Rightarrow> uploader \<times> localStorage \<times> audioFile list option" where
  "handleFiles envs ls ui fileList =
     (if fileList = [] then (ui, ls, None)
      else
        (case upload_loop envs (length fileList) 0 ls
                (ui\<lparr>uploading := True, uploadStatus := None, uploadProgress := 0\<rparr>) []
                fileList of
           (ui1, ls1, None) \<Rightarrow> (ui1\<lparr>uploading := False, uploadProgress := 0\<rparr>, ls1, None)
         | (ui1, ls1, Some processedFiles) \<Rightarrow>
             (ui1\<lparr>uploadStatus := Some (Uploaded (length processedFiles)),
                  uploading := False, uploadProgress := 0\<rparr>, ls1, Some processedFiles)))"

section \<open>Assumptions on the browser, and example inputs\<close>

text \<open>
  \<^verbatim>\<open>JSON.stringify\<close> followed by \<^verbatim>\<open>JSON.parse\<close> gives the value back, and the text is
  not empty. The theorems that read back what was written assume it of the value
  written.
\<close>

definition json_faithful :: "browser \<Rightarrow> jsval \<Rightarrow> bool" where
  "json_faithful env v =
     (json_stringify env v \<noteq> [] \<and> json_parse env (json_stringify env v) = Some v)"

text \<open>The sum of the lengths of the values of a list of key/value pairs.\<close>

definition value_lengths :: "(string \<times> string) list \<Rightarrow> int" where
  "value_lengths its = sum_list (map (\<lambda>(key, val). int (length val)) its)"

definition example_file :: jsfile where
  "example_file = \<lparr> file_name = ''song.mp3'', file_type = ''audio/mpeg'', file_size = 4,
      file_lastModified = 7 \<rparr>"

definition example_saved :: jsval where
  "example_saved =
     Obj [(''id'', Str ''k2x9f''),
          (''data'', Str ''data:audio/mpeg;base64,AAAA''),
          (''metadata'',
             Obj [(''duration'', Num (Fin 3)), (''name'', Str ''song''),
                  (''fileName'', Str ''song.mp3''), (''size'', Num (Fin 4)),
                  (''type'', Str ''audio/mpeg''), (''lastModified'', Num (Fin 7))]),
          (''createdAt'', Str ''2024-01-01T00:00:00.000Z''),
          (''playCount'', Num (Fin 0)),
          (''lastPlayed'', Null)]"

definition example_old :: jsval where
  "example_old = Obj [(''id'', Str ''old1''), (''data'', Str ''data:audio/wav;base64,BBBB'')]"

definition example_clash :: jsval where
  "example_clash = Obj [(''id'', Str ''k2x9f''), (''data'', Str ''data:audio/wav;base64,CCCC'')]"

text \<open>The JSON texts of the example browser, each with the value it stands for.\<close>

definition example_json :: "(string \<times> jsval) list" where
  "example_json =
     [(''[]'', Arr []),
      (''[old]'', Arr [example_old]),
      (''[new]'', Arr [example_saved]),
      (''[old,new]'', Arr [example_old, example_saved]),
      (''[clash]'', Arr [example_clash]),
      (''[clash,new]'', Arr [example_clash, example_saved]),
      (''null'', Null)]"

text \<open>
  An example browser. Its FileReader and \<^verbatim>\<open>URL.createObjectURL\<close> take a File and refuse
  an object that is not one.
\<close>

definition example_browser :: browser where
  "example_browser =
     \<lparr> json_parse = map_of example_json,
       json_stringify =
         (\<lambda>v. case find (\<lambda>p. snd p = v) example_json of
                None \<Rightarrow> ''null''
              | Some p \<Rightarrow> fst p),
       readAsDataURL =
         (\<lambda>u. case u of Blob f \<Rightarrow> Some ''data:audio/mpeg;base64,AAAA'' | Plain a \<Rightarrow> None),
       createObjectURL = (\<lambda>u. case u of Blob f \<Rightarrow> Some ''blob:1'' | Plain a \<Rightarrow> None),
       loadMetadata = (\<lambda>url. Loadedmetadata (Fin 3)),
       date_now_base36 = ''k2x'',
       math_random_base36 = ''0.9f'',
       date_now_string = ''1700000000000'',
       date_iso_string = ''2024-01-01T00:00:00.000Z'' \<rparr>"

definition example_browsers :: "nat \<Rightarrow> browser" where
  "example_browsers i = example_browser"

text \<open>
  Names that \<^verbatim>\<open>Storage.prototype\<close> and \<^verbatim>\<open>Object.prototype\<close> define, for the example
  stores.
\<close>

definition prototype_names :: "string list" where
  "prototype_names =
     [''length'', ''key'', ''getItem'', ''setItem'', ''removeItem'', ''clear'',
      ''constructor'', ''hasOwnProperty'', ''isPrototypeOf'', ''propertyIsEnumerable'',
      ''toLocaleString'', ''toString'', ''valueOf'', ''__proto__'', ''__defineGetter__'',
      ''__defineSetter__'', ''__lookupGetter__'', ''__lookupSetter__'']"

text \<open>A store with room, holding the given text under the audio-files key.\<close>

definition storage_holding :: "string \<Rightarrow> localStorage" where
  "storage_holding stored =
     \<lparr> accessible = True, accepts = (\<lambda>its. length its \<le> 8),
       inherited = (\<lambda>k. k \<in> set prototype_names),
       items = [(AUDIO_FILES, stored)] \<rparr>"

text \<open>
  A store with a quota of 22 characters of values, holding the given text under the
  audio-files key: the probe write, of 16 characters, fits beside a text of at most 6.
\<close>

definition snug_storage :: "string \<Rightarrow> localStorage" where
  "snug_storage stored =
     \<lparr> accessible = True, accepts = (\<lambda>its. value_lengths its \<le> 22),
       inherited = (\<lambda>k. k \<in> set prototype_names),
       items = [(AUDIO_FILES, stored)] \<rparr>"

text \<open>A store that cannot be accessed.\<close>

definition blocked_storage :: localStorage where
  "blocked_storage =
     \<lparr> accessible = False, accepts = (\<lambda>its. True),
       inherited = (\<lambda>k. k \<in> set prototype_names), items = [] \<rparr>"

definition idle_uploader :: uploader where
  "idle_uploader = \<lparr> uploading = False, uploadStatus = None, uploadProgress = 0 \<rparr>"

text \<open>A store with room that holds an entry under the key \<^verbatim>\<open>length\<close>.\<close>

definition shadowed_storage :: localStorage where
  "shadowed_storage =
     \<lparr> accessible = True, accepts = (\<lambda>its. length its \<le> 8),
       inherited = (\<lambda>k. k \<in> set prototype_names),
       items = [(''a'', ''hello''), (''length'', ''abcdef'')] \<rparr>"

section \<open>Repeat and shuffle\<close>

lemma nextRepeatMode_none: "nextRepeatMode ''none'' = ''all''"
  by (simp add: nextRepeatMode_def)

lemma nextRepeatMode_all: "nextRepeatMode ''all'' = ''one''"
  by (simp add: nextRepeatMode_def)

lemma nextRepeatMode_one: "nextRepeatMode ''one'' = ''none''"
  by (simp add: nextRepeatMode_def)

lemma nextRepeatMode_other:
  "m \<noteq> ''none'' \<Longrightarrow> m \<noteq> ''all'' \<Longrightarrow> m \<noteq> ''one'' \<Longrightarrow> nextRepeatMode m = ''none''"
  by (simp add: nextRepeatMode_def)

text \<open>
  C5. \<^verbatim>\<open>toggleRepeat\<close> sends 'none' to 'all', 'all' to 'one', 'one' to 'none' and every
  other value to 'none'; from one of the three modes, three applications give the
  original mode back; \<^verbatim>\<open>toggleShuffle\<close> applied twice gives the original flag back.
\<close>

theorem toggle_cycles:
  "repeatMode (toggleRepeat s) =
     (if repeatMode s = ''none'' then ''all''
      else if repeatMode s = ''all'' then ''one'' else ''none'')
   \<and> (repeatMode s \<in> {''none'', ''all'', ''one''} \<longrightarrow>
        repeatMode (toggleRepeat (toggleRepeat (toggleRepeat s))) = repeatMode s)
   \<and> isShuffling (toggleShuffle (toggleShuffle s)) = isShuffling s"
proof -
  have step: "repeatMode (toggleRepeat t) = nextRepeatMode (repeatMode t)" for t
    by (simp add: toggleRepeat_def)
  have one: "repeatMode (toggleRepeat s) =
     (if repeatMode s = ''none'' then ''all''
      else if repeatMode s = ''all'' then ''one'' else ''none'')"
    by (simp add: step nextRepeatMode_def)
  have three: "repeatMode (toggleRepeat (toggleRepeat (toggleRepeat s))) = repeatMode s"
    if "repeatMode s \<in> {''none'', ''all'', ''one''}"
  proof -
    from that consider "repeatMode s = ''none''" | "repeatMode s = ''all''"
      | "repeatMode s = ''one''" by auto
    then show ?thesis
      by cases
        (simp_all add: step nextRepeatMode_none nextRepeatMode_all nextRepeatMode_one)
  qed
  have shuffle: "isShuffling (toggleShuffle (toggleShuffle s)) = isShuffling s"
    by (simp add: toggleShuffle_def)
  from one three shuffle show ?thesis by blast
qed

theorem toggle_cycles_witness:
  "repeatMode (initial\<lparr>repeatMode := ''all''\<rparr>) \<in> {''none'', ''all'', ''one''}
   \<and> repeatMode (toggleRepeat (initial\<lparr>repeatMode := ''all''\<rparr>)) = ''one''
   \<and> repeatMode (toggleRepeat (toggleRepeat (toggleRepeat (initial\<lparr>repeatMode := ''all''\<rparr>))))
       = ''all''
   \<and> isShuffling (toggleShuffle (toggleShuffle (initial\<lparr>repeatMode := ''all''\<rparr>))) = False"
  using toggle_cycles [of "initial\<lparr>repeatMode := ''all''\<rparr>"]
  by (simp add: initial_def)

section \<open>Volume\<close>

lemma Math_min_Fin: "Math_min (Fin a) (Fin b) = Fin (min a b)"
  by (simp add: Math_min_def min_def)

lemma Math_max_Fin: "Math_max (Fin a) (Fin b) = Fin (max a b)"
  by (simp add: Math_max_def max_def)

lemma changeVolume_volume: "volume (changeVolume (Fin v) s) = Fin (max 0 (min 1 v))"
  by (simp add: changeVolume_def Math_min_Fin Math_max_Fin Let_def split: option.splits)

lemma toggleMute_volume:
  "volume (toggleMute s) = volume s \<or> volume (toggleMute s) = Fin 0
     \<or> volume (toggleMute s) = Fin 1"
  by (simp add: toggleMute_def split: option.splits)

lemma loadTrack_volume: "volume (loadTrack t s) = volume s"
  by (simp add: loadTrack_def Let_def split: option.splits)

lemma apply_op_unit:
  assumes "\<exists>r. volume s = Fin r \<and> 0 \<le> r \<and> r \<le> 1"
  shows "\<exists>r. volume (apply_op s op) = Fin r \<and> 0 \<le> r \<and> r \<le> 1"
proof (cases op)
  case (ChangeVolume v)
  then show ?thesis by (simp add: changeVolume_volume)
next
  case ToggleMute
  with assms toggleMute_volume [of s] show ?thesis by auto
next
  case (LoadTrack t)
  with assms show ?thesis by (simp add: loadTrack_volume)
qed

lemma foldl_apply_op_unit:
  "\<exists>r. volume s = Fin r \<and> 0 \<le> r \<and> r \<le> 1 \<Longrightarrow>
   \<exists>r. volume (foldl apply_op s ops) = Fin r \<and> 0 \<le> r \<and> r \<le> 1"
proof (induction ops arbitrary: s)
  case Nil
  then show ?case by simp
next
  case (Cons op ops)
  from Cons.prems have "\<exists>r. volume (apply_op s op) = Fin r \<and> 0 \<le> r \<and> r \<le> 1"
    by (rule apply_op_unit)
  then show ?case using Cons.IH by simp
qed

lemma setVolume_clamps:
  "gainNode m = Some g \<Longrightarrow> audioContext_time m = Some now \<Longrightarrow>
   setVolume (Fin v) m = Inr (m\<lparr>gainNode := Some (g @ [(Fin (max 0 (min 1 v)), now)])\<rparr>)"
  by (simp add: setVolume_def Math_min_Fin Math_max_Fin)

text \<open>
  C7. From a state whose volume is 1, as the initial state's is, any sequence of
  \<^verbatim>\<open>changeVolume(v)\<close> with real \<open>v\<close>, \<^verbatim>\<open>toggleMute\<close> and \<^verbatim>\<open>loadTrack\<close> leaves a volume
  between 0 and 1; \<^verbatim>\<open>changeVolume(v)\<close> stores \<open>max 0 (min 1 v)\<close>; and \<^verbatim>\<open>setVolume(v)\<close> of
  the audio context manager schedules \<open>max 0 (min 1 v)\<close>, a value between 0 and 1, on
  its gain node.
\<close>

theorem volume_in_unit_interval:
  "(volume s0 = Fin 1 \<longrightarrow>
      (\<exists>r. volume (foldl apply_op s0 ops) = Fin r \<and> 0 \<le> r \<and> r \<le> 1))
   \<and> volume (changeVolume (Fin v) s) = Fin (max 0 (min 1 v))
   \<and> (gainNode m = Some g \<and> audioContext_time m = Some now \<longrightarrow>
        setVolume (Fin v) m = Inr (m\<lparr>gainNode := Some (g @ [(Fin (max 0 (min 1 v)), now)])\<rparr>)
        \<and> 0 \<le> max 0 (min 1 v) \<and> max 0 (min 1 v) \<le> 1)"
proof -
  have run: "\<exists>r. volume (foldl apply_op s0 ops) = Fin r \<and> 0 \<le> r \<and> r \<le> 1"
    if "volume s0 = Fin 1"
  proof -
    from that have "\<exists>r. volume s0 = Fin r \<and> 0 \<le> r \<and> r \<le> 1" by simp
    then show ?thesis by (rule foldl_apply_op_unit)
  qed
  have gain: "setVolume (Fin v) m
      = Inr (m\<lparr>gainNode := Some (g @ [(Fin (max 0 (min 1 v)), now)])\<rparr>)"
    if "gainNode m = Some g" "audioContext_time m = Some now"
    using that by (rule setVolume_clamps)
  have bounds: "0 \<le> max 0 (min 1 v)" "max 0 (min 1 v) \<le> 1"
    by simp_all
  from run gain bounds changeVolume_volume [of v s] show ?thesis by blast
qed

theorem volume_in_unit_interval_witness:
  "volume (mount initial) = Fin 1
   \<and> volume (foldl apply_op (mount initial)
               [ChangeVolume (1 / 2), ToggleMute, ChangeVolume 7, LoadTrack None, ToggleMute])
       = Fin 0
   \<and> volume (changeVolume (Fin (- 3)) (mount initial)) = Fin 0
   \<and> setVolume (Fin (- 3)) \<lparr> audioContext_time = Some (Fin 5), gainNode = Some [] \<rparr>
       = Inr \<lparr> audioContext_time = Some (Fin 5), gainNode = Some [(Fin 0, Fin 5)] \<rparr>"
proof -
  have a: "volume (mount initial) = Fin 1"
    by (simp add: mount_def initial_def)
  have b: "volume (foldl apply_op (mount initial)
               [ChangeVolume (1 / 2), ToggleMute, ChangeVolume 7, LoadTrack None, ToggleMute])
       = Fin 0"
    by (simp add: mount_def initial_def new_Audio_def changeVolume_def toggleMute_def
        loadTrack_def Math_min_Fin Math_max_Fin js_gt_def Let_def)
  have c: "gainNode \<lparr> audioContext_time = Some (Fin 5), gainNode = Some [] \<rparr> = Some []
      \<and> audioContext_time \<lparr> audioContext_time = Some (Fin 5), gainNode = Some [] \<rparr>
          = Some (Fin 5)"
    by simp
  from a b c
    volume_in_unit_interval [of "mount initial"
      "[ChangeVolume (1 / 2), ToggleMute, ChangeVolume 7, LoadTrack None, ToggleMute]"
      "- 3" "mount initial" "\<lparr> audioContext_time = Some (Fin 5), gainNode = Some [] \<rparr>"
      "[]" "Fin 5"]
  show ?thesis
    by simp
qed

section \<open>Mute\<close>

text \<open>
  C9. With an audio element in place, \<^verbatim>\<open>toggleMute\<close> sets the volume (of the element
  and of the state) to 0 when the element's volume is greater than 0, and to 1
  otherwise; so from an element volume \<open>v\<close> with \<open>0 < v < 1\<close> two applications give
  volume 1, which is not \<open>v\<close>.
\<close>

theorem toggleMute_forgets_volume:
  "audioRef s = Some a \<Longrightarrow>
     (js_gt (el_volume a) (Fin 0) \<longrightarrow>
        toggleMute s = s\<lparr>audioRef := Some (a\<lparr>el_volume := Fin 0\<rparr>), volume := Fin 0\<rparr>)
   \<and> (\<not> js_gt (el_volume a) (Fin 0) \<longrightarrow>
        toggleMute s = s\<lparr>audioRef := Some (a\<lparr>el_volume := Fin 1\<rparr>), volume := Fin 1\<rparr>)
   \<and> (el_volume a = Fin v \<and> 0 < v \<and> v < 1 \<longrightarrow>
        volume (toggleMute (toggleMute s)) = Fin 1
        \<and> volume (toggleMute (toggleMute s)) \<noteq> Fin v
        \<and> audioRef (toggleMute (toggleMute s)) = Some (a\<lparr>el_volume := Fin 1\<rparr>))"
  by (simp add: toggleMute_def js_gt_def)

theorem toggleMute_forgets_volume_witness:
  "audioRef (changeVolume (Fin (1 / 4)) (mount initial))
     = Some (new_Audio\<lparr>el_preload := ''metadata'', el_volume := Fin (1 / 4)\<rparr>)
   \<and> js_gt (Fin (1 / 4)) (Fin 0)
   \<and> volume (changeVolume (Fin (1 / 4)) (mount initial)) = Fin (1 / 4)
   \<and> volume (toggleMute (changeVolume (Fin (1 / 4)) (mount initial))) = Fin 0
   \<and> volume (toggleMute (toggleMute (changeVolume (Fin (1 / 4)) (mount initial)))) = Fin 1
   \<and> \<not> js_gt (Fin 0) (Fin 0)
   \<and> volume (toggleMute (mount initial\<lparr>audioRef := Some (new_Audio\<lparr>el_volume := Fin 0\<rparr>)\<rparr>))
       = Fin 1"
proof -
  have a: "audioRef (changeVolume (Fin (1 / 4)) (mount initial))
     = Some (new_Audio\<lparr>el_preload := ''metadata'', el_volume := Fin (1 / 4)\<rparr>)"
    by (simp add: changeVolume_def mount_def initial_def Math_min_Fin Math_max_Fin Let_def)
  have v: "volume (changeVolume (Fin (1 / 4)) (mount initial)) = Fin (1 / 4)"
    by (simp add: changeVolume_volume)
  have e: "el_volume (new_Audio\<lparr>el_preload := ''metadata'', el_volume := Fin (1 / 4)\<rparr>)
      = Fin (1 / 4)"
    by simp
  have g: "js_gt (Fin (1 / 4)) (Fin 0)" "\<not> js_gt (Fin 0) (Fin 0)"
    by (simp_all add: js_gt_def)
  note T = toggleMute_forgets_volume [OF a, of "1 / 4"]
  from T e have two:
    "volume (toggleMute (toggleMute (changeVolume (Fin (1 / 4)) (mount initial)))) = Fin 1"
    by auto
  from T g(1) have "toggleMute (changeVolume (Fin (1 / 4)) (mount initial))
      = changeVolume (Fin (1 / 4)) (mount initial)
          \<lparr>audioRef := Some (new_Audio\<lparr>el_preload := ''metadata'', el_volume := Fin 0\<rparr>),
           volume := Fin 0\<rparr>"
    by simp
  then have one: "volume (toggleMute (changeVolume (Fin (1 / 4)) (mount initial))) = Fin 0"
    by simp
  have m: "audioRef (mount initial\<lparr>audioRef := Some (new_Audio\<lparr>el_volume := Fin 0\<rparr>)\<rparr>)
      = Some (new_Audio\<lparr>el_volume := Fin 0\<rparr>)"
    by simp
  from toggleMute_forgets_volume [OF m, of 0] g(2)
  have "toggleMute (mount initial\<lparr>audioRef := Some (new_Audio\<lparr>el_volume := Fin 0\<rparr>)\<rparr>)
      = mount initial\<lparr>audioRef := Some (new_Audio\<lparr>el_volume := Fin 0\<rparr>)\<rparr>
          \<lparr>audioRef := Some (new_Audio\<lparr>el_volume := Fin 0, el_volume := Fin 1\<rparr>),
           volume := Fin 1\<rparr>"
    by simp
  then have three:
    "volume (toggleMute (mount initial\<lparr>audioRef := Some (new_Audio\<lparr>el_volume := Fin 0\<rparr>)\<rparr>))
       = Fin 1"
    by simp
  from a v one two three g show ?thesis by blast
qed

section \<open>Seeking\<close>

text \<open>
  C10, amended. With an audio element in place, \<^verbatim>\<open>seekTo(t)\<close> for a \<open>t\<close> that is not NaN
  and a finite \<^verbatim>\<open>Math.max(0, Math.min(t, duration))\<close> sets the element's \<^verbatim>\<open>currentTime\<close>
  and the \<^verbatim>\<open>currentTime\<close> state to that value: to \<open>max 0 (min t duration)\<close> for finite
  \<open>t\<close> and duration, to \<open>max 0 t\<close> for finite \<open>t\<close> and infinite duration.
  \<^verbatim>\<open>seekTo(NaN)\<close> changes nothing.
\<close>

theorem seekTo_clamps:
  "audioRef s = Some a \<Longrightarrow>
     (t \<noteq> NaN \<and> Math_max (Fin 0) (Math_min t (duration s)) = Fin r \<longrightarrow>
        seekTo t s =
          Inr (s\<lparr>audioRef := Some (a\<lparr>el_currentTime := Fin r\<rparr>), currentTime := Fin r\<rparr>))
   \<and> (t = Fin x \<and> duration s = Fin d \<longrightarrow>
        seekTo t s =
          Inr (s\<lparr>audioRef := Some (a\<lparr>el_currentTime := Fin (max 0 (min x d))\<rparr>),
                 currentTime := Fin (max 0 (min x d))\<rparr>))
   \<and> (t = Fin x \<and> duration s = PInf \<longrightarrow>
        seekTo t s =
          Inr (s\<lparr>audioRef := Some (a\<lparr>el_currentTime := Fin (max 0 x)\<rparr>),
                 currentTime := Fin (max 0 x)\<rparr>))
   \<and> seekTo NaN s = Inr s"
proof -
  assume a: "audioRef s = Some a"
  have one: "seekTo t s =
      Inr (s\<lparr>audioRef := Some (a\<lparr>el_currentTime := Fin r\<rparr>), currentTime := Fin r\<rparr>)"
    if "t \<noteq> NaN \<and> Math_max (Fin 0) (Math_min t (duration s)) = Fin r"
    using a that by (simp add: seekTo_def isNaN_def set_currentTime_def Let_def)
  have two: "seekTo t s =
      Inr (s\<lparr>audioRef := Some (a\<lparr>el_currentTime := Fin (max 0 (min x d))\<rparr>),
             currentTime := Fin (max 0 (min x d))\<rparr>)"
    if "t = Fin x \<and> duration s = Fin d"
    using a that
    by (simp add: seekTo_def isNaN_def set_currentTime_def Math_min_Fin Math_max_Fin Let_def)
  have three: "seekTo t s =
      Inr (s\<lparr>audioRef := Some (a\<lparr>el_currentTime := Fin (max 0 x)\<rparr>),
             currentTime := Fin (max 0 x)\<rparr>)"
    if "t = Fin x \<and> duration s = PInf"
    using a that
    by (simp add: seekTo_def isNaN_def set_currentTime_def Math_min_def Math_max_Fin Let_def)
  have four: "seekTo NaN s = Inr s"
    by (simp add: seekTo_def isNaN_def split: option.splits)
  from one two three four show ?thesis by blast
qed

theorem seekTo_clamps_witness:
  "seekTo (Fin 500) (mount initial\<lparr>duration := Fin 180\<rparr>)
     = Inr (mount initial\<lparr>duration := Fin 180, currentTime := Fin 180,
         audioRef := Some (new_Audio\<lparr>el_preload := ''metadata'', el_currentTime := Fin 180\<rparr>)\<rparr>)
   \<and> seekTo (Fin (- 5)) (mount initial\<lparr>duration := Fin 180\<rparr>)
     = Inr (mount initial\<lparr>duration := Fin 180, currentTime := Fin 0,
         audioRef := Some (new_Audio\<lparr>el_preload := ''metadata'', el_currentTime := Fin 0\<rparr>)\<rparr>)
   \<and> PInf \<noteq> NaN
   \<and> Math_max (Fin 0) (Math_min PInf (duration (mount initial\<lparr>duration := Fin 180\<rparr>)))
       = Fin 180
   \<and> seekTo PInf (mount initial\<lparr>duration := Fin 180\<rparr>)
     = Inr (mount initial\<lparr>duration := Fin 180, currentTime := Fin 180,
         audioRef := Some (new_Audio\<lparr>el_preload := ''metadata'', el_currentTime := Fin 180\<rparr>)\<rparr>)
   \<and> seekTo (Fin 30) (mount initial\<lparr>duration := PInf\<rparr>)
     = Inr (mount initial\<lparr>duration := PInf, currentTime := Fin 30,
         audioRef := Some (new_Audio\<lparr>el_preload := ''metadata'', el_currentTime := Fin 30\<rparr>)\<rparr>)
   \<and> seekTo NaN (mount initial\<lparr>duration := Fin 180\<rparr>)
     = Inr (mount initial\<lparr>duration := Fin 180\<rparr>)"
proof -
  have a: "audioRef (mount initial\<lparr>duration := Fin 180\<rparr>)
      = Some (new_Audio\<lparr>el_preload := ''metadata''\<rparr>)"
    by (simp add: mount_def)
  have b: "audioRef (mount initial\<lparr>duration := PInf\<rparr>)
      = Some (new_Audio\<lparr>el_preload := ''metadata''\<rparr>)"
    by (simp add: mount_def)
  have d: "duration (mount initial\<lparr>duration := Fin 180\<rparr>) = Fin 180"
    "duration (mount initial\<lparr>duration := PInf\<rparr>) = PInf"
    by simp_all
  have m: "Math_max (Fin 0) (Math_min PInf (Fin 180)) = Fin 180"
    by (simp add: Math_min_def Math_max_def)
  from seekTo_clamps [OF a, of "Fin 500" 0 500 180] seekTo_clamps [OF a, of "Fin (- 5)" 0 "- 5" 180]
    seekTo_clamps [OF a, of PInf 180 0 0] seekTo_clamps [OF b, of "Fin 30" 0 30 0] d m
  show ?thesis
    by (simp add: mount_def initial_def)
qed

text \<open>
  Where the duration is infinite, as that of a stream is, \<^verbatim>\<open>seekTo(Infinity)\<close> computes
  an infinite time; the element refuses it, the assignment throws and nothing is set.
\<close>

theorem seekTo_infinite_counterexample:
  "PInf \<noteq> NaN
   \<and> audioRef (mount initial\<lparr>duration := PInf\<rparr>)
       = Some (new_Audio\<lparr>el_preload := ''metadata''\<rparr>)
   \<and> seekTo PInf (mount initial\<lparr>duration := PInf\<rparr>) = Inl TypeError"
  by (simp add: seekTo_def isNaN_def set_currentTime_def Math_min_def Math_max_def mount_def
      Let_def)

section \<open>The end of a track\<close>

text \<open>
  C4. The \<^verbatim>\<open>ended\<close> listener stops playback and resets the \<^verbatim>\<open>currentTime\<close> state
  whatever the repeat mode of the state is, also when it is 'one': after two
  \<^verbatim>\<open>toggleRepeat\<close> the mode is 'one', yet the track is not restarted, while
  \<^verbatim>\<open>handleTrackEnd\<close> given the mode of the state would restart it.
\<close>

theorem handleEnded_ignores_repeat_one:
  "repeatMode (toggleRepeat (toggleRepeat (mount initial\<lparr>isPlaying := True\<rparr>))) = ''one''
   \<and> handleEnded (toggleRepeat (toggleRepeat (mount initial\<lparr>isPlaying := True\<rparr>)))
       = Inr (mount initial\<lparr>isPlaying := False, currentTime := Fin 0, repeatMode := ''one''\<rparr>)
   \<and> handleTrackEnd ''one''
         (toggleRepeat (toggleRepeat (mount initial\<lparr>isPlaying := True\<rparr>))\<lparr>isPlaying := False\<rparr>)
       = Inr (mount initial\<lparr>isPlaying := True, repeatMode := ''one'',
               audioRef := Some (new_Audio\<lparr>el_preload := ''metadata'', el_calls := [Play]\<rparr>)\<rparr>)"
  by (simp add: handleEnded_def handleTrackEnd_def toggleRepeat_def nextRepeatMode_def
      mount_def initial_def new_Audio_def)

lemma handleEnded_any_mode:
  "handleEnded s = Inr (s\<lparr>isPlaying := False, currentTime := Fin 0\<rparr>)"
  by (simp add: handleEnded_def handleTrackEnd_def initial_def)

section \<open>Facts about the store\<close>

lemma check_eq:
  "checkStorageAvailability ls =
     (if accessible ls \<and> accepts ls (AList.update storage_test storage_test (items ls))
      then (True, ls\<lparr>items := AList.delete storage_test (items ls)\<rparr>)
      else (False, ls))"
  by (simp add: checkStorageAvailability_def setItem_def removeItem_def Let_def
      AList.delete_update_same)

lemma check_accessible: "accessible (snd (checkStorageAvailability ls)) = accessible ls"
  by (simp add: check_eq)

lemma check_lookup:
  "k \<noteq> storage_test \<Longrightarrow> map_of (items (snd (checkStorageAvailability ls))) k = map_of (items ls) k"
  by (simp add: check_eq)

lemma keys_not_probe:
  "AUDIO_FILES \<noteq> storage_test" "PLAYBACK_STATE \<noteq> storage_test" "USER_PREFERENCES \<noteq> storage_test"
  by (simp_all add: AUDIO_FILES_def PLAYBACK_STATE_def USER_PREFERENCES_def storage_test_def)


lemma setItem_lookup:
  "setItem ls k v = Inr ls' \<Longrightarrow> map_of (items ls') k = Some v"
  by (auto simp add: setItem_def Let_def AList.update_conv' split: if_splits)

lemma read_json_cases:
  "read_json env ls key dflt =
     (if \<not> accessible ls then Inl SecurityError
      else case map_of (items ls) key of
             None \<Rightarrow> Inr dflt
           | Some stored \<Rightarrow> if stored = [] then Inr dflt
               else (case json_parse env stored of None \<Rightarrow> Inl SyntaxError | Some v \<Rightarrow> Inr v))"
  by (simp add: read_json_def getItem_def split: option.splits)



lemma getAudioFiles_stored:
  assumes "fst (checkStorageAvailability ls)"
    and "map_of (items ls) AUDIO_FILES = Some s"
    and "s \<noteq> []" and "json_parse env s = Some v"
  shows "fst (getAudioFiles env ls) = Inr v"
  using assms check_lookup [OF keys_not_probe(1), of ls] check_accessible [of ls]
  by (cases "checkStorageAvailability ls")
     (auto simp add: getAudioFiles_def read_json_cases check_eq split: if_splits)

section \<open>The example inputs evaluated\<close>

lemma ex_check_holding: "checkStorageAvailability (storage_holding s) = (True, storage_holding s)"
  by (simp add: check_eq storage_holding_def AUDIO_FILES_def storage_test_def)

lemma ex_check_blocked: "checkStorageAvailability blocked_storage = (False, blocked_storage)"
  by (simp add: check_eq blocked_storage_def)

lemma ex_holding:
  "accessible (storage_holding s) = True"
  "items (storage_holding s) = [(AUDIO_FILES, s)]"
  by (simp_all add: storage_holding_def)

lemma ex_setItem:
  "setItem (storage_holding s) AUDIO_FILES t = Inr (storage_holding t)"
  by (simp add: setItem_def storage_holding_def)

lemma ex_generateId: "generateId example_browser = ''k2x9f''"
  by (simp add: generateId_def example_browser_def)

lemma ex_reader:
  "readAsDataURL example_browser (Blob f) = Some ''data:audio/mpeg;base64,AAAA''"
  "readAsDataURL example_browser (Plain a) = None"
  "date_iso_string example_browser = ''2024-01-01T00:00:00.000Z''"
  by (simp_all add: example_browser_def)

lemma ex_extract:
  "extractMetadata example_browser (Blob example_file) =
     Inr (Obj [(''duration'', Num (Fin 3)), (''name'', Str ''song''),
                  (''fileName'', Str ''song.mp3''), (''size'', Num (Fin 4)),
                  (''type'', Str ''audio/mpeg''), (''lastModified'', Num (Fin 7))])"
  by (simp add: extractMetadata_def example_browser_def example_file_def strip_extension_def)

lemma ex_stringify:
  "json_stringify example_browser (Arr [example_old, example_saved]) = ''[old,new]''"
  "json_stringify example_browser (Arr [example_clash, example_saved]) = ''[clash,new]''"
  "json_stringify example_browser (Arr [example_saved]) = ''[new]''"
  "json_stringify example_browser (Arr [example_old]) = ''[old]''"
  by (simp_all add: example_browser_def example_json_def example_saved_def example_old_def example_clash_def)

lemma ex_parse:
  "json_parse example_browser ''[old,new]'' = Some (Arr [example_old, example_saved])"
  "json_parse example_browser ''[clash,new]'' = Some (Arr [example_clash, example_saved])"
  "json_parse example_browser ''[new]'' = Some (Arr [example_saved])"
  "json_parse example_browser ''[old]'' = Some (Arr [example_old])"
  "json_parse example_browser ''[clash]'' = Some (Arr [example_clash])"
  by (simp_all add: example_browser_def example_json_def)

lemma ex_faithful:
  "json_faithful example_browser (Arr [example_old, example_saved])"
  "json_faithful example_browser (Arr [example_saved])"
  "json_faithful example_browser (Arr [example_old])"
  by (simp_all add: json_faithful_def ex_stringify ex_parse)

lemma ex_prop_id:
  "prop_id example_old = Inr (Str ''old1'')"
  "prop_id example_saved = Inr (Str ''k2x9f'')"
  "prop_id example_clash = Inr (Str ''k2x9f'')"
  by (simp_all add: prop_id_def example_old_def example_saved_def example_clash_def)

lemma ex_get:
  "getAudioFiles example_browser (storage_holding ''[old]'') = (Inr (Arr [example_old]), storage_holding ''[old]'')"
  "getAudioFiles example_browser (storage_holding ''[clash]'') = (Inr (Arr [example_clash]), storage_holding ''[clash]'')"
  "getAudioFiles example_browser (storage_holding ''[old,new]'') = (Inr (Arr [example_old, example_saved]), storage_holding ''[old,new]'')"
  "getAudioFiles example_browser (storage_holding ''[clash,new]'') = (Inr (Arr [example_clash, example_saved]), storage_holding ''[clash,new]'')"
  "getAudioFiles example_browser (storage_holding ''[new]'') = (Inr (Arr [example_saved]), storage_holding ''[new]'')"
  by (simp_all add: getAudioFiles_def ex_check_holding read_json_cases ex_parse ex_holding)

lemma ex_saved_eq:
  "Obj [(''id'', Str ''k2x9f''),
          (''data'', Str ''data:audio/mpeg;base64,AAAA''),
          (''metadata'',
             Obj [(''duration'', Num (Fin 3)), (''name'', Str ''song''),
                  (''fileName'', Str ''song.mp3''), (''size'', Num (Fin 4)),
                  (''type'', Str ''audio/mpeg''), (''lastModified'', Num (Fin 7))]),
          (''createdAt'', Str ''2024-01-01T00:00:00.000Z''),
          (''playCount'', Num (Fin 0)),
          (''lastPlayed'', Null)] = example_saved"
  by (simp add: example_saved_def)

lemma ex_save:
  "saveAudioFile example_browser (storage_holding ''[old]'') (Blob example_file)
     = (Inr example_saved, storage_holding ''[old,new]'')"
  "saveAudioFile example_browser (storage_holding ''[clash]'') (Blob example_file)
     = (Inr example_saved, storage_holding ''[clash,new]'')"
  by (simp_all add: saveAudioFile_def ex_check_holding fileToBase64_def ex_extract ex_generateId
      ex_get spread_def ex_reader ex_saved_eq ex_stringify ex_setItem)

lemma ex_save_plain:
  "saveAudioFile example_browser (storage_holding s) (Plain a)
     = (Inl (SaveFailed FileReadError), storage_holding s)"
  by (simp add: saveAudioFile_def ex_check_holding fileToBase64_def ex_reader)

lemma ex_validate: "validateFile example_file = Valid"
  by (simp add: validateFile_def example_file_def supportedFormats_def)

lemma ex_process:
  "processAudioFile example_browser example_file =
     Inr \<lparr> af_id = ''1700000000000'', af_name = ''song'', af_file = ''song.mp3'',
           af_duration = Fin 3, af_size = 4, af_type = ''audio/mpeg'',
           af_data = ''data:audio/mpeg;base64,AAAA'',
           af_uploadedAt = ''2024-01-01T00:00:00.000Z'' \<rparr>"
  by (simp add: processAudioFile_def example_browser_def example_file_def strip_extension_def)

lemma ex_snug:
  "accessible (snug_storage s) = True"
  "items (snug_storage s) = [(AUDIO_FILES, s)]"
  by (simp_all add: snug_storage_def)

lemma ex_check_snug:
  "checkStorageAvailability (snug_storage s) = (length s \<le> 6, snug_storage s)"
  by (simp add: check_eq snug_storage_def AUDIO_FILES_def storage_test_def value_lengths_def)

lemma ex_setItem_snug:
  "length t \<le> 22 \<Longrightarrow> setItem (snug_storage s) AUDIO_FILES t = Inr (snug_storage t)"
  by (simp add: setItem_def snug_storage_def value_lengths_def)

lemma ex_get_snug:
  "getAudioFiles example_browser (snug_storage ''[old]'')
     = (Inr (Arr [example_old]), snug_storage ''[old]'')"
  "getAudioFiles example_browser (snug_storage ''[old,new]'')
     = (Inr (Arr []), snug_storage ''[old,new]'')"
  by (simp_all add: getAudioFiles_def ex_check_snug read_json_cases ex_parse ex_snug)


lemma ex_stringify_empty: "json_stringify example_browser (Arr []) = ''[]''"
  by (simp add: example_browser_def example_json_def)

section \<open>Storage information and validation\<close>

lemma foldl_lengths:
  "foldl (\<lambda>acc (key, val). if P key then acc + int (length val) else acc) a xs
     = a + value_lengths (filter (\<lambda>(key, val). P key) xs)"
  by (induction xs arbitrary: a) (auto simp add: value_lengths_def)

lemma own_stored:
  "filter (\<lambda>(key, val). hasOwnProperty ls key) (items ls)
     = filter (\<lambda>(key, val). \<not> inherited ls key) (items ls)"
proof (rule filter_cong)
  fix p assume "p \<in> set (items ls)"
  then have "fst p \<in> fst ` set (items ls)" by (rule imageI)
  then have "map_of (items ls) (fst p) \<noteq> None"
    by (simp add: map_of_eq_None_iff)
  then show "(case p of (key, val) \<Rightarrow> hasOwnProperty ls key)
      = (case p of (key, val) \<Rightarrow> \<not> inherited ls key)"
    by (cases p) (simp add: hasOwnProperty_def)
qed simp

lemma info_available:
  "fst (checkStorageAvailability ls) \<Longrightarrow>
   getStorageInfo ls =
     (\<lparr> used = value_lengths (filter (\<lambda>(key, val). \<not> inherited ls key)
                 (AList.delete storage_test (items ls))),
        available = 10 * 1024 * 1024
          - value_lengths (filter (\<lambda>(key, val). \<not> inherited ls key)
              (AList.delete storage_test (items ls))),
        total = 10 * 1024 * 1024 \<rparr>, snd (checkStorageAvailability ls))"
proof -
  assume "fst (checkStorageAvailability ls)"
  then have c: "checkStorageAvailability ls
      = (True, ls\<lparr>items := AList.delete storage_test (items ls)\<rparr>)"
    by (simp add: check_eq split: if_splits)
  have "filter (\<lambda>(key, val).
            hasOwnProperty (ls\<lparr>items := AList.delete storage_test (items ls)\<rparr>) key)
          (AList.delete storage_test (items ls))
      = filter (\<lambda>(key, val). \<not> inherited ls key) (AList.delete storage_test (items ls))"
    using own_stored [of "ls\<lparr>items := AList.delete storage_test (items ls)\<rparr>"] by simp
  with c show ?thesis
    by (simp add: getStorageInfo_def foldl_lengths Let_def)
qed

lemma info_unavailable:
  "\<not> fst (checkStorageAvailability ls) \<Longrightarrow>
   getStorageInfo ls = (\<lparr> used = 0, available = 0, total = 0 \<rparr>, ls)"
  by (auto simp add: getStorageInfo_def check_eq)

lemma validate_iff:
  "fst (validateAudioFile ls f) = Valid \<longleftrightarrow>
     (file_type f \<in> set validTypes
        \<or> has_extension [''mp3'', ''wav'', ''ogg'', ''aac'', ''m4a''] (file_name f))
     \<and> file_size f \<le> 50 * 1024 * 1024
     \<and> int (file_size f) \<le> available (fst (getStorageInfo ls))"
  by (auto simp: validateAudioFile_def maxSize_def split: prod.splits)

text \<open>
  C3, amended. While localStorage is available, \<^verbatim>\<open>getStorageInfo\<close> gives as \<^verbatim>\<open>used\<close> the
  sum of the lengths of the values stored under the keys that are own properties of
  the store, once the availability probe has removed its own entry: the sum over every
  value of the store, when it held nothing under the probe key nor under a name that
  its prototypes define. It gives as \<^verbatim>\<open>total\<close> the constant 10 * 1024 * 1024 and as
  \<^verbatim>\<open>available\<close> their difference. While localStorage is not available, all three are 0.
  \<^verbatim>\<open>validateAudioFile\<close> accepts a file exactly when its type or its extension is an
  accepted audio format, its size is at most 50 * 1024 * 1024 and its size is at most
  the \<^verbatim>\<open>available\<close> so computed.
\<close>

theorem storage_info_and_validation:
  "(fst (checkStorageAvailability ls) \<longrightarrow>
      fst (getStorageInfo ls) =
        \<lparr> used = value_lengths (filter (\<lambda>(key, val). \<not> inherited ls key)
                   (AList.delete storage_test (items ls))),
          available = 10 * 1024 * 1024
            - value_lengths (filter (\<lambda>(key, val). \<not> inherited ls key)
                (AList.delete storage_test (items ls))),
          total = 10 * 1024 * 1024 \<rparr>)
   \<and> (fst (checkStorageAvailability ls) \<and> map_of (items ls) storage_test = None
        \<and> (\<forall>key \<in> fst ` set (items ls). \<not> inherited ls key) \<longrightarrow>
        used (fst (getStorageInfo ls)) = value_lengths (items ls))
   \<and> (\<not> fst (checkStorageAvailability ls) \<longrightarrow>
        fst (getStorageInfo ls) = \<lparr> used = 0, available = 0, total = 0 \<rparr>)
   \<and> (fst (validateAudioFile ls f) = Valid \<longleftrightarrow>
        (file_type f \<in> set validTypes
           \<or> has_extension [''mp3'', ''wav'', ''ogg'', ''aac'', ''m4a''] (file_name f))
        \<and> file_size f \<le> 50 * 1024 * 1024
        \<and> int (file_size f) \<le> available (fst (getStorageInfo ls)))"
proof -
  have a: "fst (getStorageInfo ls) =
        \<lparr> used = value_lengths (filter (\<lambda>(key, val). \<not> inherited ls key)
                   (AList.delete storage_test (items ls))),
          available = 10 * 1024 * 1024
            - value_lengths (filter (\<lambda>(key, val). \<not> inherited ls key)
                (AList.delete storage_test (items ls))),
          total = 10 * 1024 * 1024 \<rparr>"
    if "fst (checkStorageAvailability ls)"
    using info_available [OF that] by simp
  have b: "used (fst (getStorageInfo ls)) = value_lengths (items ls)"
    if "fst (checkStorageAvailability ls) \<and> map_of (items ls) storage_test = None
        \<and> (\<forall>key \<in> fst ` set (items ls). \<not> inherited ls key)"
  proof -
    from that have d: "AList.delete storage_test (items ls) = items ls"
      by (simp add: map_of_eq_None_iff)
    from that have "filter (\<lambda>(key, val). \<not> inherited ls key) (items ls) = items ls"
      by (auto simp add: filter_id_conv)
    with a d that show ?thesis by simp
  qed
  have c: "fst (getStorageInfo ls) = \<lparr> used = 0, available = 0, total = 0 \<rparr>"
    if "\<not> fst (checkStorageAvailability ls)"
    using info_unavailable [OF that] by simp
  from a b c validate_iff [of ls f] show ?thesis by blast
qed

theorem storage_info_and_validation_witness:
  "fst (checkStorageAvailability (storage_holding ''[old]''))
   \<and> map_of (items (storage_holding ''[old]'')) storage_test = None
   \<and> \<not> inherited (storage_holding ''[old]'') AUDIO_FILES
   \<and> fst (getStorageInfo (storage_holding ''[old]''))
       = \<lparr> used = 5, available = 10485755, total = 10485760 \<rparr>
   \<and> fst (checkStorageAvailability shadowed_storage)
   \<and> fst (getStorageInfo shadowed_storage)
       = \<lparr> used = 5, available = 10485755, total = 10485760 \<rparr>
   \<and> \<not> fst (checkStorageAvailability blocked_storage)
   \<and> fst (getStorageInfo blocked_storage) = \<lparr> used = 0, available = 0, total = 0 \<rparr>
   \<and> fst (validateAudioFile (storage_holding ''[old]'') example_file) = Valid
   \<and> fst (validateAudioFile blocked_storage example_file)
       = Invalid ''Not enough storage space available''"
proof -
  have h: "fst (checkStorageAvailability (storage_holding ''[old]''))"
    by (simp add: ex_check_holding)
  have p: "map_of (items (storage_holding ''[old]'')) storage_test = None"
    by (simp add: ex_holding AUDIO_FILES_def storage_test_def)
  have i: "\<not> inherited (storage_holding ''[old]'') AUDIO_FILES"
    by (simp add: storage_holding_def prototype_names_def AUDIO_FILES_def)
  then have q: "\<forall>key \<in> fst ` set (items (storage_holding ''[old]'')).
      \<not> inherited (storage_holding ''[old]'') key"
    by (simp add: ex_holding)
  have v: "value_lengths (items (storage_holding ''[old]'')) = 5"
    by (simp add: ex_holding value_lengths_def)
  have sh: "fst (checkStorageAvailability shadowed_storage)"
    by (simp add: check_eq shadowed_storage_def storage_test_def)
  have sv: "value_lengths (filter (\<lambda>(key, val). \<not> inherited shadowed_storage key)
      (AList.delete storage_test (items shadowed_storage))) = 5"
    by (simp add: shadowed_storage_def prototype_names_def storage_test_def value_lengths_def)
  have n: "\<not> fst (checkStorageAvailability blocked_storage)"
    by (simp add: ex_check_blocked)
  have t: "file_type example_file \<in> set validTypes" "file_size example_file = 4"
    by (simp_all add: example_file_def validTypes_def)
  have w: "fst (validateAudioFile blocked_storage example_file)
       = Invalid ''Not enough storage space available''"
    by (simp add: validateAudioFile_def t maxSize_def getStorageInfo_def ex_check_blocked)
  note T = storage_info_and_validation [of "storage_holding ''[old]''" example_file]
  note U = storage_info_and_validation [of shadowed_storage example_file]
  note B = storage_info_and_validation [of blocked_storage example_file]
  have one: "fst (getStorageInfo (storage_holding ''[old]''))
       = \<lparr> used = 5, available = 10485755, total = 10485760 \<rparr>"
  proof -
    let ?X = "value_lengths (filter (\<lambda>(key, val). \<not> inherited (storage_holding ''[old]'') key)
                   (AList.delete storage_test (items (storage_holding ''[old]''))))"
    from T h have eq: "fst (getStorageInfo (storage_holding ''[old]'')) =
        \<lparr> used = ?X, available = 10 * 1024 * 1024 - ?X, total = 10 * 1024 * 1024 \<rparr>"
      by blast
    from T h p q have "used (fst (getStorageInfo (storage_holding ''[old]'')))
        = value_lengths (items (storage_holding ''[old]''))"
      by blast
    with v have u: "used (fst (getStorageInfo (storage_holding ''[old]''))) = 5"
      by simp
    from eq have "used (fst (getStorageInfo (storage_holding ''[old]''))) = ?X"
      by simp
    with u have "?X = 5" by simp
    with eq show ?thesis by simp
  qed
  have two: "fst (getStorageInfo shadowed_storage)
       = \<lparr> used = 5, available = 10485755, total = 10485760 \<rparr>"
  proof -
    let ?X = "value_lengths (filter (\<lambda>(key, val). \<not> inherited shadowed_storage key)
                   (AList.delete storage_test (items shadowed_storage)))"
    from U sh have "fst (getStorageInfo shadowed_storage) =
        \<lparr> used = ?X, available = 10 * 1024 * 1024 - ?X, total = 10 * 1024 * 1024 \<rparr>"
      by blast
    with sv show ?thesis by simp
  qed
  from T have "fst (validateAudioFile (storage_holding ''[old]'') example_file) = Valid \<longleftrightarrow>
        (file_type example_file \<in> set validTypes
           \<or> has_extension [''mp3'', ''wav'', ''ogg'', ''aac'', ''m4a''] (file_name example_file))
        \<and> file_size example_file \<le> 50 * 1024 * 1024
        \<and> int (file_size example_file)
            \<le> available (fst (getStorageInfo (storage_holding ''[old]'')))"
    by blast
  with one t have three: "fst (validateAudioFile (storage_holding ''[old]'') example_file) = Valid"
    by simp
  from B n have four:
    "fst (getStorageInfo blocked_storage) = \<lparr> used = 0, available = 0, total = 0 \<rparr>"
    by blast
  from h p i one sh two n four three w show ?thesis by blast
qed

text \<open>
  On a store that has no room for the availability probe, the total reported is 0, not
  the constant, and \<^verbatim>\<open>used\<close> is 0 although a value of 9 characters is stored. And on
  an available store that holds \<^verbatim>\<open>hello\<close> under \<^verbatim>\<open>a\<close> and \<^verbatim>\<open>abcdef\<close> under \<^verbatim>\<open>length\<close>,
  \<^verbatim>\<open>used\<close> is 5 and not 11: \<^verbatim>\<open>length\<close> is not an own property of the store.
\<close>

theorem storage_info_total_counterexample:
  "total (fst (getStorageInfo (snug_storage ''[old,new]''))) \<noteq> 10 * 1024 * 1024
   \<and> used (fst (getStorageInfo (snug_storage ''[old,new]'')))
       \<noteq> value_lengths (items (snug_storage ''[old,new]''))
   \<and> fst (checkStorageAvailability shadowed_storage)
   \<and> value_lengths (items shadowed_storage) = 11
   \<and> used (fst (getStorageInfo shadowed_storage)) = 5"
proof -
  have a: "total (fst (getStorageInfo (snug_storage ''[old,new]''))) \<noteq> 10 * 1024 * 1024
   \<and> used (fst (getStorageInfo (snug_storage ''[old,new]'')))
       \<noteq> value_lengths (items (snug_storage ''[old,new]''))"
    by (simp add: getStorageInfo_def ex_check_snug)
       (simp add: ex_snug value_lengths_def)
  have b: "checkStorageAvailability shadowed_storage = (True, shadowed_storage)"
    by (simp add: check_eq shadowed_storage_def storage_test_def)
  have c: "value_lengths (items shadowed_storage) = 11"
    by (simp add: shadowed_storage_def value_lengths_def)
  have d: "used (fst (getStorageInfo shadowed_storage)) = 5"
    by (simp add: getStorageInfo_def b)
       (simp add: shadowed_storage_def hasOwnProperty_def prototype_names_def)
  from a b c d show ?thesis by simp
qed

section \<open>Reading\<close>

lemma getAudioFiles_total: "\<exists>v. fst (getAudioFiles env ls) = Inr v"
  by (simp add: getAudioFiles_def split: prod.splits bool.splits sum.splits)

lemma getAudioFiles_unavailable:
  "\<not> fst (checkStorageAvailability ls) \<Longrightarrow> fst (getAudioFiles env ls) = Inr (Arr [])"
  by (cases "checkStorageAvailability ls") (simp add: getAudioFiles_def)

lemma getAudioFiles_absent:
  "map_of (items ls) AUDIO_FILES = None \<Longrightarrow> fst (getAudioFiles env ls) = Inr (Arr [])"
  using check_lookup [OF keys_not_probe(1), of ls]
  by (auto simp add: getAudioFiles_def read_json_cases split: prod.splits bool.splits sum.splits if_splits)

lemma getAudioFiles_garbled:
  "map_of (items ls) AUDIO_FILES = Some stored \<Longrightarrow> json_parse env stored = None \<Longrightarrow> fst (getAudioFiles env ls) = Inr (Arr [])"
  using check_lookup [OF keys_not_probe(1), of ls]
  by (auto simp add: getAudioFiles_def read_json_cases split: prod.splits bool.splits sum.splits if_splits)

lemma getPlaybackState_total: "\<exists>v. getPlaybackState env ls = Inr v"
  by (simp add: getPlaybackState_def split: sum.splits)

lemma getPlaybackState_null:
  "\<not> accessible ls \<or> map_of (items ls) PLAYBACK_STATE = None
     \<or> (\<exists>stored. map_of (items ls) PLAYBACK_STATE = Some stored \<and> json_parse env stored = None)
   \<Longrightarrow> getPlaybackState env ls = Inr Null"
  by (auto simp add: getPlaybackState_def read_json_cases split: sum.splits if_splits)

lemma getUserPreferences_default:
  "\<not> accessible ls \<or> map_of (items ls) USER_PREFERENCES = None
     \<or> (\<exists>stored. map_of (items ls) USER_PREFERENCES = Some stored \<and> json_parse env stored = None)
   \<Longrightarrow> getUserPreferences env ls = Inr default_preferences"
  by (auto simp add: getUserPreferences_def read_json_cases split: sum.splits if_splits)

lemma getPlaylistState_total: "\<exists>v. getPlaylistState env ls = Inr v"
  by (simp add: getPlaylistState_def split: sum.splits)

lemma getPlaylistState_empty:
  "\<not> accessible ls \<or> map_of (items ls) CURRENT_PLAYLIST = None
     \<or> (\<exists>stored. map_of (items ls) CURRENT_PLAYLIST = Some stored \<and> json_parse env stored = None)
   \<Longrightarrow> getPlaylistState env ls = Inr (Arr [])"
  by (auto simp add: getPlaylistState_def read_json_cases split: sum.splits if_splits)

lemma find_id_objects:
  "\<forall>x \<in> set xs. x \<noteq> Null \<and> x \<noteq> Undefined \<Longrightarrow> \<exists>v. find_id xs i = Inr v"
proof (induction xs)
  case Nil
  then show ?case by simp
next
  case (Cons x xs)
  then have "x \<noteq> Null" "x \<noteq> Undefined" by simp_all
  then obtain w where "prop_id x = Inr w"
    by (cases x) (simp_all add: prop_id_def)
  with Cons show ?case by simp
qed

lemma getAudioFile_records:
  assumes "fst (getAudioFiles env ls) = Inr (Arr xs)"
    and "\<forall>x \<in> set xs. x \<noteq> Null \<and> x \<noteq> Undefined"
  shows "\<exists>v. fst (getAudioFile env ls i) = Inr v"
proof -
  from assms(2) obtain w where "find_id xs i = Inr w"
    using find_id_objects by blast
  with assms(1) show ?thesis
    by (cases "getAudioFiles env ls") (simp add: getAudioFile_def)
qed

text \<open>
  C6, amended. \<^verbatim>\<open>getAudioFiles\<close>, \<^verbatim>\<open>getPlaylistState\<close>, \<^verbatim>\<open>getPlaybackState\<close> and
  \<^verbatim>\<open>getUserPreferences\<close> return a value and never an exception. \<^verbatim>\<open>getAudioFiles\<close> returns
  the empty array when localStorage is not available, when the key is absent and when
  the stored text does not parse; \<^verbatim>\<open>getPlaylistState\<close> returns the empty array,
  \<^verbatim>\<open>getPlaybackState\<close> null and \<^verbatim>\<open>getUserPreferences\<close> the default preferences, when the
  store cannot be accessed, the key is absent or the stored text does not parse.
  \<^verbatim>\<open>getAudioFile\<close> returns a value when \<^verbatim>\<open>getAudioFiles\<close> gives an array that holds
  neither null nor undefined.
\<close>

theorem reads_never_throw:
  "(\<exists>v. fst (getAudioFiles env ls) = Inr v)
   \<and> (\<not> fst (checkStorageAvailability ls) \<longrightarrow> fst (getAudioFiles env ls) = Inr (Arr []))
   \<and> (map_of (items ls) AUDIO_FILES = None \<longrightarrow> fst (getAudioFiles env ls) = Inr (Arr []))
   \<and> (map_of (items ls) AUDIO_FILES = Some stored \<and> json_parse env stored = None \<longrightarrow>
        fst (getAudioFiles env ls) = Inr (Arr []))
   \<and> (\<exists>v. getPlaybackState env ls = Inr v)
   \<and> (\<not> accessible ls \<or> map_of (items ls) PLAYBACK_STATE = None
        \<or> (map_of (items ls) PLAYBACK_STATE = Some stored \<and> json_parse env stored = None) \<longrightarrow>
        getPlaybackState env ls = Inr Null)
   \<and> (\<exists>v. getUserPreferences env ls = Inr v)
   \<and> (\<not> accessible ls \<or> map_of (items ls) USER_PREFERENCES = None
        \<or> (map_of (items ls) USER_PREFERENCES = Some stored \<and> json_parse env stored = None) \<longrightarrow>
        getUserPreferences env ls
          = Inr (Obj [(''volume'', Num (Fin 1)), (''shuffle'', Bool False),
                      (''repeat'', Str ''none''), (''theme'', Str ''dark'')]))
   \<and> (\<exists>v. getPlaylistState env ls = Inr v)
   \<and> (\<not> accessible ls \<or> map_of (items ls) CURRENT_PLAYLIST = None
        \<or> (map_of (items ls) CURRENT_PLAYLIST = Some stored \<and> json_parse env stored = None) \<longrightarrow>
        getPlaylistState env ls = Inr (Arr []))
   \<and> (fst (getAudioFiles env ls) = Inr (Arr xs) \<and> (\<forall>x \<in> set xs. x \<noteq> Null \<and> x \<noteq> Undefined)
        \<longrightarrow> (\<exists>v. fst (getAudioFile env ls i) = Inr v))"
proof -
  have p: "getPlaybackState env ls = Inr Null"
    if "\<not> accessible ls \<or> map_of (items ls) PLAYBACK_STATE = None
        \<or> (map_of (items ls) PLAYBACK_STATE = Some stored \<and> json_parse env stored = None)"
    using that by (intro getPlaybackState_null) blast
  have l: "getPlaylistState env ls = Inr (Arr [])"
    if "\<not> accessible ls \<or> map_of (items ls) CURRENT_PLAYLIST = None
        \<or> (map_of (items ls) CURRENT_PLAYLIST = Some stored \<and> json_parse env stored = None)"
    using that by (intro getPlaylistState_empty) blast
  have u: "getUserPreferences env ls
          = Inr (Obj [(''volume'', Num (Fin 1)), (''shuffle'', Bool False),
                      (''repeat'', Str ''none''), (''theme'', Str ''dark'')])"
    if "\<not> accessible ls \<or> map_of (items ls) USER_PREFERENCES = None
        \<or> (map_of (items ls) USER_PREFERENCES = Some stored \<and> json_parse env stored = None)"
  proof -
    from that have "getUserPreferences env ls = Inr default_preferences"
      by (intro getUserPreferences_default) blast
    then show ?thesis by (simp add: default_preferences_def)
  qed
  have g: "fst (getAudioFiles env ls) = Inr (Arr [])"
    if "map_of (items ls) AUDIO_FILES = Some stored \<and> json_parse env stored = None"
    using that getAudioFiles_garbled by blast
  have ut: "\<exists>v. getUserPreferences env ls = Inr v"
    by (simp add: getUserPreferences_def split: sum.splits)
  have r: "\<exists>v. fst (getAudioFile env ls i) = Inr v"
    if "fst (getAudioFiles env ls) = Inr (Arr xs) \<and> (\<forall>x \<in> set xs. x \<noteq> Null \<and> x \<noteq> Undefined)"
    using that getAudioFile_records [of env ls xs i] by blast
  have first: "(\<exists>v. fst (getAudioFiles env ls) = Inr v)
   \<and> (\<not> fst (checkStorageAvailability ls) \<longrightarrow> fst (getAudioFiles env ls) = Inr (Arr []))
   \<and> (map_of (items ls) AUDIO_FILES = None \<longrightarrow> fst (getAudioFiles env ls) = Inr (Arr []))
   \<and> (map_of (items ls) AUDIO_FILES = Some stored \<and> json_parse env stored = None \<longrightarrow>
        fst (getAudioFiles env ls) = Inr (Arr []))"
    using getAudioFiles_total [of env ls] getAudioFiles_unavailable [of ls env]
      getAudioFiles_absent [of ls env] g by blast
  have second: "(\<exists>v. getPlaybackState env ls = Inr v)
   \<and> (\<not> accessible ls \<or> map_of (items ls) PLAYBACK_STATE = None
        \<or> (map_of (items ls) PLAYBACK_STATE = Some stored \<and> json_parse env stored = None) \<longrightarrow>
        getPlaybackState env ls = Inr Null)"
    using getPlaybackState_total [of env ls] p by blast
  have third: "(\<exists>v. getPlaylistState env ls = Inr v)
   \<and> (\<not> accessible ls \<or> map_of (items ls) CURRENT_PLAYLIST = None
        \<or> (map_of (items ls) CURRENT_PLAYLIST = Some stored \<and> json_parse env stored = None) \<longrightarrow>
        getPlaylistState env ls = Inr (Arr []))"
    using getPlaylistState_total [of env ls] l by blast
  have fourth: "(\<exists>v. getUserPreferences env ls = Inr v)
   \<and> (\<not> accessible ls \<or> map_of (items ls) USER_PREFERENCES = None
        \<or> (map_of (items ls) USER_PREFERENCES = Some stored \<and> json_parse env stored = None) \<longrightarrow>
        getUserPreferences env ls
          = Inr (Obj [(''volume'', Num (Fin 1)), (''shuffle'', Bool False),
                      (''repeat'', Str ''none''), (''theme'', Str ''dark'')]))"
    using ut u by blast
  have fifth: "fst (getAudioFiles env ls) = Inr (Arr xs) \<and> (\<forall>x \<in> set xs. x \<noteq> Null \<and> x \<noteq> Undefined)
        \<longrightarrow> (\<exists>v. fst (getAudioFile env ls i) = Inr v)"
    using r by blast
  show ?thesis
    apply (rule conjI [OF conjunct1 [OF first]])
    apply (rule conjI [OF conjunct1 [OF conjunct2 [OF first]]])
    apply (rule conjI [OF conjunct1 [OF conjunct2 [OF conjunct2 [OF first]]]])
    apply (rule conjI [OF conjunct2 [OF conjunct2 [OF conjunct2 [OF first]]]])
    apply (rule conjI [OF conjunct1 [OF second]])
    apply (rule conjI [OF conjunct2 [OF second]])
    apply (rule conjI [OF conjunct1 [OF fourth]])
    apply (rule conjI [OF conjunct2 [OF fourth]])
    apply (rule conjI [OF conjunct1 [OF third]])
    apply (rule conjI [OF conjunct2 [OF third]])
    apply (rule fifth)
    done
qed

theorem reads_never_throw_witness:
  "\<not> fst (checkStorageAvailability blocked_storage)
   \<and> map_of (items blocked_storage) AUDIO_FILES = None
   \<and> fst (getAudioFiles example_browser blocked_storage) = Inr (Arr [])
   \<and> map_of (items (storage_holding ''{oops'')) AUDIO_FILES = Some ''{oops''
   \<and> json_parse example_browser ''{oops'' = None
   \<and> fst (getAudioFiles example_browser (storage_holding ''{oops'')) = Inr (Arr [])
   \<and> map_of (items (storage_holding ''{oops'')) PLAYBACK_STATE = None
   \<and> getPlaybackState example_browser (storage_holding ''{oops'') = Inr Null
   \<and> \<not> accessible blocked_storage
   \<and> getUserPreferences example_browser blocked_storage
          = Inr (Obj [(''volume'', Num (Fin 1)), (''shuffle'', Bool False),
                      (''repeat'', Str ''none''), (''theme'', Str ''dark'')])
   \<and> getPlaylistState example_browser blocked_storage = Inr (Arr [])
   \<and> fst (getAudioFiles example_browser (storage_holding ''[old]'')) = Inr (Arr [example_old])
   \<and> (\<exists>v. fst (getAudioFile example_browser (storage_holding ''[old]'') ''old1'') = Inr v)"
proof -
  have a: "\<not> fst (checkStorageAvailability blocked_storage)"
    by (simp add: ex_check_blocked)
  have b: "map_of (items (storage_holding ''{oops'')) AUDIO_FILES = Some ''{oops''"
    by (simp add: ex_holding)
  have c: "json_parse example_browser ''{oops'' = None"
    by (simp add: example_browser_def example_json_def)
  have d: "map_of (items (storage_holding ''{oops'')) PLAYBACK_STATE = None"
    by (simp add: ex_holding AUDIO_FILES_def PLAYBACK_STATE_def)
  have e: "\<not> accessible blocked_storage" "map_of (items blocked_storage) AUDIO_FILES = None"
    by (simp_all add: blocked_storage_def)
  have f: "fst (getAudioFiles example_browser (storage_holding ''[old]'')) = Inr (Arr [example_old])"
    by (simp add: ex_get)
  have o: "\<forall>x \<in> set [example_old]. x \<noteq> Null \<and> x \<noteq> Undefined"
    by (simp add: example_old_def)
  note B = reads_never_throw [of example_browser blocked_storage "''{oops''" "[]" "''old1''"]
  note G = reads_never_throw [of example_browser "storage_holding ''{oops''" "''{oops''" "[]"
      "''old1''"]
  note R = reads_never_throw [of example_browser "storage_holding ''[old]''" "''{oops''"
      "[example_old]" "''old1''"]
  from B a have g1: "fst (getAudioFiles example_browser blocked_storage) = Inr (Arr [])"
    by (elim conjE) simp
  from G b c have g2: "fst (getAudioFiles example_browser (storage_holding ''{oops'')) = Inr (Arr [])"
    by (elim conjE) simp
  from G d have g3: "getPlaybackState example_browser (storage_holding ''{oops'') = Inr Null"
    by (elim conjE) simp
  from B e have g4: "getUserPreferences example_browser blocked_storage
          = Inr (Obj [(''volume'', Num (Fin 1)), (''shuffle'', Bool False),
                      (''repeat'', Str ''none''), (''theme'', Str ''dark'')])"
    by (elim conjE) simp
  from B e have g5: "getPlaylistState example_browser blocked_storage = Inr (Arr [])"
    by (elim conjE) simp
  from R f o have g6:
    "\<exists>v. fst (getAudioFile example_browser (storage_holding ''[old]'') ''old1'') = Inr v"
    by (elim conjE) simp
  from a b c d e f g1 g2 g3 g4 g5 g6 show ?thesis by simp
qed

text \<open>
  \<^verbatim>\<open>getAudioFile\<close> is a read operation that throws: when the stored text is \<^verbatim>\<open>null\<close>,
  \<^verbatim>\<open>getAudioFiles\<close> gives null and the call of \<^verbatim>\<open>find\<close> on it, outside any \<^verbatim>\<open>try\<close>, is
  a TypeError.
\<close>

theorem getAudioFile_throws_counterexample:
  "map_of (items (storage_holding ''null'')) AUDIO_FILES = Some ''null''
   \<and> json_parse example_browser ''null'' = Some Null
   \<and> fst (getAudioFiles example_browser (storage_holding ''null'')) = Inr Null
   \<and> fst (getAudioFile example_browser (storage_holding ''null'') ''k2x9f'') = Inl TypeError"
proof -
  have p: "json_parse example_browser ''null'' = Some Null"
    by (simp add: example_browser_def example_json_def)
  have g: "getAudioFiles example_browser (storage_holding ''null'')
      = (Inr Null, storage_holding ''null'')"
    by (simp add: getAudioFiles_def ex_check_holding read_json_cases ex_holding p)
  have f: "fst (getAudioFile example_browser (storage_holding ''null'') ''k2x9f'') = Inl TypeError"
    by (simp add: getAudioFile_def g)
  from p g f show ?thesis by (simp add: ex_holding)
qed

section \<open>Deleting\<close>

lemma prop_id_object: "x \<noteq> Null \<Longrightarrow> x \<noteq> Undefined \<Longrightarrow> \<exists>v. prop_id x = Inr v"
  by (cases x) (simp_all add: prop_id_def)

lemma filter_id_objects:
  "\<forall>x \<in> set xs. x \<noteq> Null \<and> x \<noteq> Undefined \<Longrightarrow>
   filter_id xs i = Inr (filter (\<lambda>x. prop_id x \<noteq> Inr (Str i)) xs)"
proof (induction xs)
  case Nil
  then show ?case by simp
next
  case (Cons x xs)
  then obtain v where v: "prop_id x = Inr v"
    using prop_id_object [of x] by auto
  from Cons have "filter_id xs i = Inr (filter (\<lambda>x. prop_id x \<noteq> Inr (Str i)) xs)" by simp
  with v show ?case by simp
qed

text \<open>
  What \<^verbatim>\<open>deleteAudioFile\<close> does when the store works. Let \<^verbatim>\<open>getAudioFiles\<close> give the list
  \<open>xs\<close> of records, let the browser accept the write of the filtered list and give it
  back from its JSON text, and let the store be available afterwards. Then
  \<^verbatim>\<open>deleteAudioFile(id)\<close> returns true and \<^verbatim>\<open>getAudioFiles\<close> gives \<open>xs\<close> without the records
  whose id is the given one, the others unchanged and in their order; when no record
  has that id, it gives \<open>xs\<close> itself.
\<close>

lemma deleteAudioFile_filters:
  assumes before: "getAudioFiles env ls = (Inr (Arr xs), ls1)"
    and objects: "\<forall>x \<in> set xs. x \<noteq> Null \<and> x \<noteq> Undefined"
    and "write": "setItem ls1 AUDIO_FILES
                  (json_stringify env (Arr (filter (\<lambda>x. prop_id x \<noteq> Inr (Str i)) xs))) = Inr ls2"
    and json: "json_faithful env (Arr (filter (\<lambda>x. prop_id x \<noteq> Inr (Str i)) xs))"
    and after: "fst (checkStorageAvailability ls2)"
  shows "deleteAudioFile env ls i = (Inr True, ls2)
     \<and> fst (getAudioFiles env ls2) = Inr (Arr (filter (\<lambda>x. prop_id x \<noteq> Inr (Str i)) xs))
     \<and> ((\<forall>x \<in> set xs. prop_id x \<noteq> Inr (Str i)) \<longrightarrow>
          fst (getAudioFiles env ls2) = Inr (Arr xs))"
proof -
  let ?ys = "filter (\<lambda>x. prop_id x \<noteq> Inr (Str i)) xs"
  from objects have f: "filter_id xs i = Inr ?ys" by (rule filter_id_objects)
  from before f "write" have del: "deleteAudioFile env ls i = (Inr True, ls2)"
    by (simp add: deleteAudioFile_def)
  from "write" have "map_of (items ls2) AUDIO_FILES = Some (json_stringify env (Arr ?ys))"
    by (rule setItem_lookup)
  with after json have get: "fst (getAudioFiles env ls2) = Inr (Arr ?ys)"
    by (auto simp add: json_faithful_def intro: getAudioFiles_stored)
  have same: "?ys = xs" if "\<forall>x \<in> set xs. prop_id x \<noteq> Inr (Str i)"
    using that by simp
  from del get same show ?thesis by auto
qed

lemma deleteAudioFile_filters_example:
  "getAudioFiles example_browser (storage_holding ''[old,new]'')
     = (Inr (Arr [example_old, example_saved]), storage_holding ''[old,new]'')
   \<and> deleteAudioFile example_browser (storage_holding ''[old,new]'') ''old1''
       = (Inr True, storage_holding ''[new]'')
   \<and> fst (getAudioFiles example_browser (storage_holding ''[new]'')) = Inr (Arr [example_saved])
   \<and> deleteAudioFile example_browser (storage_holding ''[old]'') ''k2x9f''
       = (Inr True, storage_holding ''[old]'')
   \<and> fst (getAudioFiles example_browser (storage_holding ''[old]'')) = Inr (Arr [example_old])"
proof -
  have o: "\<forall>x \<in> set [example_old, example_saved]. x \<noteq> Null \<and> x \<noteq> Undefined"
    "\<forall>x \<in> set [example_old]. x \<noteq> Null \<and> x \<noteq> Undefined"
    by (simp_all add: example_old_def example_saved_def)
  have f1: "filter (\<lambda>x. prop_id x \<noteq> Inr (Str ''old1'')) [example_old, example_saved]
      = [example_saved]"
    by (simp add: ex_prop_id)
  have f2: "filter (\<lambda>x. prop_id x \<noteq> Inr (Str ''k2x9f'')) [example_old] = [example_old]"
    by (simp add: ex_prop_id)
  have w1: "setItem (storage_holding ''[old,new]'') AUDIO_FILES
      (json_stringify example_browser
         (Arr (filter (\<lambda>x. prop_id x \<noteq> Inr (Str ''old1'')) [example_old, example_saved])))
      = Inr (storage_holding ''[new]'')"
    by (simp add: ex_prop_id ex_stringify ex_setItem)
  have w2: "setItem (storage_holding ''[old]'') AUDIO_FILES
      (json_stringify example_browser
         (Arr (filter (\<lambda>x. prop_id x \<noteq> Inr (Str ''k2x9f'')) [example_old])))
      = Inr (storage_holding ''[old]'')"
    by (simp add: ex_prop_id ex_stringify ex_setItem)
  have j1: "json_faithful example_browser
      (Arr (filter (\<lambda>x. prop_id x \<noteq> Inr (Str ''old1'')) [example_old, example_saved]))"
    by (simp add: ex_prop_id ex_faithful)
  have j2: "json_faithful example_browser
      (Arr (filter (\<lambda>x. prop_id x \<noteq> Inr (Str ''k2x9f'')) [example_old]))"
    by (simp add: ex_prop_id ex_faithful)
  have c: "fst (checkStorageAvailability (storage_holding ''[new]''))"
    "fst (checkStorageAvailability (storage_holding ''[old]''))"
    by (simp_all add: ex_check_holding)
  from deleteAudioFile_filters [OF ex_get(3) o(1) w1 j1 c(1)]
    deleteAudioFile_filters [OF ex_get(1) o(2) w2 j2 c(2)] ex_get(3) f1 f2
  show ?thesis by simp
qed

text \<open>
  C8. On a store that has no room for the availability probe, \<^verbatim>\<open>getAudioFiles\<close> gives
  the empty array although two records are stored, and \<^verbatim>\<open>deleteAudioFile\<close> of an id that
  neither record has writes the empty list over them and returns true: the records are
  removed from the store though their ids are not the given one.
\<close>

theorem deleteAudioFile_wipes_full_store:
  "map_of (items (snug_storage ''[old,new]'')) AUDIO_FILES = Some ''[old,new]''
   \<and> json_parse example_browser ''[old,new]'' = Some (Arr [example_old, example_saved])
   \<and> prop_id example_old \<noteq> Inr (Str ''absent'')
   \<and> prop_id example_saved \<noteq> Inr (Str ''absent'')
   \<and> deleteAudioFile example_browser (snug_storage ''[old,new]'') ''absent''
       = (Inr True, snug_storage ''[]'')
   \<and> map_of (items (snug_storage ''[]'')) AUDIO_FILES = Some ''[]''
   \<and> json_parse example_browser ''[]'' = Some (Arr [])
   \<and> fst (getAudioFiles example_browser (snug_storage ''[]'')) = Inr (Arr [])"
proof -
  have d: "deleteAudioFile example_browser (snug_storage ''[old,new]'') ''absent''
       = (Inr True, snug_storage ''[]'')"
    by (simp add: deleteAudioFile_def ex_get_snug ex_stringify_empty ex_setItem_snug)
  have g: "fst (getAudioFiles example_browser (snug_storage ''[]'')) = Inr (Arr [])"
    by (simp add: getAudioFiles_def ex_check_snug read_json_cases ex_snug)
       (simp add: example_browser_def example_json_def)
  have p: "json_parse example_browser ''[]'' = Some (Arr [])"
    by (simp add: example_browser_def example_json_def)
  from d g p show ?thesis
    by (simp add: ex_snug ex_parse ex_prop_id)
qed

section \<open>Saving and reading back\<close>





section \<open>Uploading\<close>

lemma plain_object_not_saved:
  "readAsDataURL env (Plain a) = None \<Longrightarrow> \<exists>e ls'. saveAudioFile env ls (Plain a) = (Inl e, ls')"
  by (cases "checkStorageAvailability ls")
     (auto simp add: saveAudioFile_def fileToBase64_def split: bool.splits)

text \<open>
  \<^verbatim>\<open>handleFiles\<close> gives \<^verbatim>\<open>saveAudioFile\<close> the object built by \<^verbatim>\<open>processAudioFile\<close>, not the
  File. In a browser whose FileReader refuses what is not a File, no list of files is
  reported as uploaded.
\<close>

lemma handleFiles_plain_object_refused:
  assumes "\<And>i a. readAsDataURL (envs i) (Plain a) = None"
  shows "uploadStatus (fst (handleFiles envs ls ui (f # fs))) \<noteq> Some (Uploaded n)"
proof (cases "validateFile f")
  case (Invalid msg)
  then show ?thesis by (simp add: handleFiles_def)
next
  case Valid
  show ?thesis
  proof (cases "processAudioFile (envs 0) f")
    case (Inl e)
    with Valid show ?thesis by (simp add: handleFiles_def)
  next
    case (Inr a)
    from assms [of 0 a] obtain e ls' where "saveAudioFile (envs 0) ls (Plain a) = (Inl e, ls')"
      using plain_object_not_saved [of "envs 0" a ls] by blast
    with Valid Inr show ?thesis by (simp add: handleFiles_def)
  qed
qed

text \<open>
  C1. In the example browser, whose FileReader reads a File and refuses another object,
  and on a store with room: \<^verbatim>\<open>validateFile\<close> accepts the example file and
  \<^verbatim>\<open>processAudioFile\<close> resolves for it, yet \<^verbatim>\<open>saveAudioFile\<close>, given the object that
  \<^verbatim>\<open>processAudioFile\<close> built, throws: \<^verbatim>\<open>handleFiles\<close> reports
  \<^verbatim>\<open>Failed to process song.mp3\<close>, does not call \<^verbatim>\<open>onUploadComplete\<close>, and the store is as
  it was. Given the File itself, \<^verbatim>\<open>saveAudioFile\<close> stores it.
\<close>

theorem handleFiles_does_not_store:
  "validateFile example_file = Valid
   \<and> processAudioFile (example_browsers 0) example_file =
       Inr \<lparr> af_id = ''1700000000000'', af_name = ''song'', af_file = ''song.mp3'',
             af_duration = Fin 3, af_size = 4, af_type = ''audio/mpeg'',
             af_data = ''data:audio/mpeg;base64,AAAA'',
             af_uploadedAt = ''2024-01-01T00:00:00.000Z'' \<rparr>
   \<and> fst (checkStorageAvailability (storage_holding ''[old]''))
   \<and> handleFiles example_browsers (storage_holding ''[old]'') idle_uploader [example_file]
       = (idle_uploader\<lparr>uploadStatus :=
            Some (ProcessingFailed ''song.mp3'' (SaveFailed FileReadError))\<rparr>,
          storage_holding ''[old]'', None)
   \<and> saveAudioFile (example_browsers 0) (storage_holding ''[old]'') (Blob example_file)
       = (Inr example_saved, storage_holding ''[old,new]'')"
proof -
  have p: "processAudioFile (example_browsers 0) example_file =
       Inr \<lparr> af_id = ''1700000000000'', af_name = ''song'', af_file = ''song.mp3'',
             af_duration = Fin 3, af_size = 4, af_type = ''audio/mpeg'',
             af_data = ''data:audio/mpeg;base64,AAAA'',
             af_uploadedAt = ''2024-01-01T00:00:00.000Z'' \<rparr>"
    by (simp add: example_browsers_def ex_process)
  have c: "fst (checkStorageAvailability (storage_holding ''[old]''))"
    by (simp add: ex_check_holding)
  have n: "file_name example_file = ''song.mp3''"
    by (simp add: example_file_def)
  have h: "handleFiles example_browsers (storage_holding ''[old]'') idle_uploader [example_file]
       = (idle_uploader\<lparr>uploadStatus :=
            Some (ProcessingFailed ''song.mp3'' (SaveFailed FileReadError))\<rparr>,
          storage_holding ''[old]'', None)"
    by (simp add: handleFiles_def ex_validate p n)
       (simp add: example_browsers_def ex_save_plain idle_uploader_def n)
  have s: "saveAudioFile (example_browsers 0) (storage_holding ''[old]'') (Blob example_file)
       = (Inr example_saved, storage_holding ''[old,new]'')"
    by (simp add: example_browsers_def ex_save)
  from ex_validate p c h s show ?thesis by blast
qed

end
